theory Spec2Isabelle
  imports Main "HOL-Library.AList"
begin

section \<open>Python values, exceptions and string formatting\<close>

text \<open>
  The values that travel through the service: the result of \<^verbatim>\<open>request.dict()\<close>, of
  \<^verbatim>\<open>json.loads\<close> and of the text generator. A Python \<^verbatim>\<open>dict\<close> with string keys is
  an association list in insertion order.
\<close>

datatype pyval =
    PNone
  | PBool bool
  | PInt int
  | PStr string
  | PList "pyval list"
  | PDict "(string \<times> pyval) list"

type_synonym pydict = "(string \<times> pyval) list"

text \<open>
  The exception classes the source tells apart. Every one of them is a subclass of
  Python's \<^verbatim>\<open>Exception\<close>: \<^verbatim>\<open>except Exception\<close> and a bare \<^verbatim>\<open>except:\<close>
  catch all five, \<^verbatim>\<open>except GithubException\<close> catches only the second.
  \<open>Exception\<close> stands for any other subclass (a transport error, a decoding error).
\<close>

datatype exn =
    HTTPException int string
  | GithubException string
  | KeyError string
  | TypeError string
  | Exception string

text \<open>\<^verbatim>\<open>str(n)\<close> for an integer: decimal digits, with a minus sign when negative.\<close>

definition digit_char :: "nat \<Rightarrow> char" where
  "digit_char d = ''0123456789'' ! d"

fun str_nat :: "nat \<Rightarrow> string" where
  "str_nat n = (if n < 10 then [digit_char n] else str_nat (n div 10) @ [digit_char (n mod 10)])"

declare str_nat.simps [simp del]

definition str_int :: "int \<Rightarrow> string" where
  "str_int i = (if i < 0 then CHR ''-'' # str_nat (nat (- i)) else str_nat (nat i))"

text \<open>
  \<^verbatim>\<open>str(e)\<close>, which the handlers put into the detail of their status-500 answer. The
  web framework (in its current versions) renders its \<^verbatim>\<open>HTTPException\<close> as
  \<^verbatim>\<open>"<status>: <detail>"\<close>, a \<^verbatim>\<open>KeyError\<close> renders its key in quotes, the other
  classes their message. No property below depends on this text.
\<close>

fun str_exn :: "exn \<Rightarrow> string" where
  "str_exn (HTTPException code detail) = str_int code @ '': '' @ detail"
| "str_exn (GithubException m) = m"
| "str_exn (KeyError k) = [CHR 0x27] @ k @ [CHR 0x27]"
| "str_exn (TypeError m) = m"
| "str_exn (Exception m) = m"

section \<open>utils.py: the secret registry\<close>

text \<open>
  \<^verbatim>\<open>
  SECRET_STORE = {}

  def verify_secret(email: str, secret: str) -> bool:
      expected_secret = SECRET_STORE.get(email)
      if expected_secret is None:
          SECRET_STORE[email] = secret
          return True
      return expected_secret == secret
  \<close>
  The global dictionary is passed in and returned.
\<close>

type_synonym secret_store = "string \<rightharpoonup> string"

definition verify_secret :: "string \<Rightarrow> string \<Rightarrow> secret_store \<Rightarrow> bool \<times> secret_store" where
  "verify_secret email secret store =
     (case store email of
        None \<Rightarrow> (True, store(email \<mapsto> secret))
      | Some expected_secret \<Rightarrow> (expected_secret = secret, store))"

text \<open>A sequence of calls, each on the store the previous one left; the answers in order.\<close>

fun verify_all :: "(string \<times> string) list \<Rightarrow> secret_store \<Rightarrow> bool list \<times> secret_store" where
  "verify_all [] store = ([], store)"
| "verify_all ((email, secret) # calls) store =
     (case verify_secret email secret store of
        (ok, store') \<Rightarrow> (case verify_all calls store' of (oks, store'') \<Rightarrow> (ok # oks, store'')))"

section \<open>models.py: the request and payload models\<close>

text \<open>
  \<^verbatim>\<open>BuildRequest\<close> and \<^verbatim>\<open>RevisionRequest\<close> declare the same nine fields and differ only
  in the bounds of \<^verbatim>\<open>round\<close> (\<^verbatim>\<open>Field(ge=1, le=2)\<close> and \<^verbatim>\<open>Field(ge=2, le=2)\<close>), which
  the framework checks before a handler runs: one record, two validity predicates. The
  fields carry a prefix (\<open>req_email\<close> for \<^verbatim>\<open>request.email\<close>, \<open>att_name\<close> for
  \<^verbatim>\<open>attachment.name\<close>) so that the functions below keep their parameter names.
\<close>

record Attachment =
  att_name :: string
  att_url :: string

record Request =
  req_email :: string
  req_secret :: string
  req_task :: string
  req_round :: int
  req_nonce :: string
  req_brief :: string
  req_checks :: "string list"
  req_evaluation_url :: string
  req_attachments :: "Attachment list"

type_synonym BuildRequest = Request
type_synonym RevisionRequest = Request

definition BuildRequest_valid :: "BuildRequest \<Rightarrow> bool" where
  "BuildRequest_valid r = (1 \<le> req_round r \<and> req_round r \<le> 2)"

definition RevisionRequest_valid :: "RevisionRequest \<Rightarrow> bool" where
  "RevisionRequest_valid r = (2 \<le> req_round r \<and> req_round r \<le> 2)"

text \<open>
  \<^verbatim>\<open>EvaluationResponse(email, task, round, nonce, repo_url, commit_sha, pages_url)\<close>,
  the fields in this order.
\<close>

datatype EvaluationResponse =
  EvaluationResponse string string int string string string string

text \<open>\<^verbatim>\<open>.dict()\<close>: the declared fields, in declaration order, nested models as dictionaries.\<close>

definition Attachment_dict :: "Attachment \<Rightarrow> pyval" where
  "Attachment_dict a = PDict [(''name'', PStr (att_name a)), (''url'', PStr (att_url a))]"

definition Request_dict :: "Request \<Rightarrow> pydict" where
  "Request_dict r =
     [(''email'', PStr (req_email r)),
      (''secret'', PStr (req_secret r)),
      (''task'', PStr (req_task r)),
      (''round'', PInt (req_round r)),
      (''nonce'', PStr (req_nonce r)),
      (''brief'', PStr (req_brief r)),
      (''checks'', PList (map PStr (req_checks r))),
      (''evaluation_url'', PStr (req_evaluation_url r)),
      (''attachments'', PList (map Attachment_dict (req_attachments r)))]"

fun EvaluationResponse_dict :: "EvaluationResponse \<Rightarrow> pydict" where
  "EvaluationResponse_dict (EvaluationResponse email task round nonce repo_url commit_sha pages_url) =
     [(''email'', PStr email),
      (''task'', PStr task),
      (''round'', PInt round),
      (''nonce'', PStr nonce),
      (''repo_url'', PStr repo_url),
      (''commit_sha'', PStr commit_sha),
      (''pages_url'', PStr pages_url)]"

section \<open>evaluation\_client.py: the delivery notifier\<close>

text \<open>
  \<^verbatim>\<open>
  max_retries = 5
  base_delay = 1
  for attempt in range(max_retries):
      try:
          session = await self.get_session()
          async with session.post(evaluation_url, json=eval_data.dict(), ...) as response:
              if response.status == 200:
                  return True
              else:
                  logger.warning(...)
      except Exception as e:
          logger.warning(...)
      if attempt < max_retries - 1:
          delay = base_delay * (2 ** attempt)
          await asyncio.sleep(delay)
  return False
  \<close>
  The remote endpoint is a function from the attempt index, the URL and the JSON body to
  what the attempt sees: a response with its status, or an exception raised while
  getting the session or posting. The run returns its result with the trace of the
  requests sent and the delays slept, in order.
\<close>

datatype post_outcome = Response int | PostRaised exn

datatype net_event = Post string pydict | Sleep nat

type_synonym endpoint = "nat \<Rightarrow> string \<Rightarrow> pydict \<Rightarrow> post_outcome"

definition max_retries :: nat where
  "max_retries = 5"

definition base_delay :: nat where
  "base_delay = 1"

definition backoff :: "nat \<Rightarrow> net_event list" where
  "backoff attempt =
     (if attempt < max_retries - 1 then [Sleep (base_delay * 2 ^ attempt)] else [])"

fun submit_attempts ::
  "endpoint \<Rightarrow> EvaluationResponse \<Rightarrow> string \<Rightarrow> nat list \<Rightarrow> bool \<times> net_event list" where
  "submit_attempts post eval_data evaluation_url [] = (False, [])"
| "submit_attempts post eval_data evaluation_url (attempt # rest) =
     (let body = EvaluationResponse_dict eval_data;
          sent = Post evaluation_url body;
          retry = (case submit_attempts post eval_data evaluation_url rest of
                     (result, events) \<Rightarrow> (result, sent # backoff attempt @ events))
      in case post attempt evaluation_url body of
           Response status \<Rightarrow> if status = 200 then (True, [sent]) else retry
         | PostRaised e \<Rightarrow> retry)"

definition submit_evaluation ::
  "endpoint \<Rightarrow> EvaluationResponse \<Rightarrow> string \<Rightarrow> bool \<times> net_event list" where
  "submit_evaluation post eval_data evaluation_url =
     submit_attempts post eval_data evaluation_url [0..<max_retries]"

text \<open>The trace of a run of failed attempts: each request, then its delay if it has one.\<close>

definition attempt_trace :: "string \<Rightarrow> pydict \<Rightarrow> nat list \<Rightarrow> net_event list" where
  "attempt_trace u body as = concat (map (\<lambda>a. Post u body # backoff a) as)"

text \<open>
  The statuses HTTP calls successful are the 2xx class; the notifier accepts only one of
  them. This predicate is the protocol's reading of "a success status", kept apart from
  the code's test \<open>status = 200\<close>.
\<close>

definition http_success_status :: "int \<Rightarrow> bool" where
  "http_success_status status = (200 \<le> status \<and> status < 300)"

section \<open>github\_client.py: the publication adapter\<close>

text \<open>
  The hosted-repository provider is outside the repository; the client reaches it through
  a library. It is modelled as a state: for each repository (by full name
  \<^verbatim>\<open>login/name\<close>) the files of branch \<^verbatim>\<open>main\<close> as a map from path to content, and the
  head commit of each branch. \<open>sha_of\<close> is the provider's blob hash. A call fails when
  what it names does not exist (or, for a creation, exists already), and besides that
  whenever \<open>fault\<close> says so: \<open>fault\<close> stands for everything that can go wrong between the
  client and the provider, with the exception it surfaces as.
\<close>

datatype gh_call =
    GetRepo string
  | GetBranch string string
  | GetContents string string
  | UpdateFile string string string string string
  | CreateFile string string string string

record github =
  login :: string
  repos :: "string \<rightharpoonup> (string \<rightharpoonup> string)"
  branch_head :: "string \<Rightarrow> string \<Rightarrow> string option"
  sha_of :: "string \<Rightarrow> string"
  fault :: "gh_call \<Rightarrow> exn option"

definition gh_get_repo :: "github \<Rightarrow> string \<Rightarrow> exn + unit" where
  "gh_get_repo gh full_name =
     (case fault gh (GetRepo full_name) of
        Some e \<Rightarrow> Inl e
      | None \<Rightarrow>
         (case repos gh full_name of
            None \<Rightarrow> Inl (GithubException ''404 Not Found'')
          | Some files \<Rightarrow> Inr ()))"

definition gh_get_branch :: "github \<Rightarrow> string \<Rightarrow> string \<Rightarrow> exn + string" where
  "gh_get_branch gh full_name branch =
     (case fault gh (GetBranch full_name branch) of
        Some e \<Rightarrow> Inl e
      | None \<Rightarrow>
         (case branch_head gh full_name branch of
            None \<Rightarrow> Inl (GithubException ''404 Branch not found'')
          | Some sha \<Rightarrow> Inr sha))"

definition gh_get_contents :: "github \<Rightarrow> string \<Rightarrow> string \<Rightarrow> exn + string" where
  "gh_get_contents gh full_name path =
     (case fault gh (GetContents full_name path) of
        Some e \<Rightarrow> Inl e
      | None \<Rightarrow>
         (case repos gh full_name of
            None \<Rightarrow> Inl (GithubException ''404 Not Found'')
          | Some files \<Rightarrow>
             (case files path of
                None \<Rightarrow> Inl (GithubException ''404 Not Found'')
              | Some current \<Rightarrow> Inr (sha_of gh current))))"

definition gh_update_file ::
  "github \<Rightarrow> string \<Rightarrow> string \<Rightarrow> string \<Rightarrow> string \<Rightarrow> string \<Rightarrow> exn + github" where
  "gh_update_file gh full_name path message content sha =
     (case fault gh (UpdateFile full_name path message content sha) of
        Some e \<Rightarrow> Inl e
      | None \<Rightarrow>
         (case repos gh full_name of
            None \<Rightarrow> Inl (GithubException ''404 Not Found'')
          | Some files \<Rightarrow>
             (case files path of
                None \<Rightarrow> Inl (GithubException ''404 Not Found'')
              | Some current \<Rightarrow>
                  if sha \<noteq> sha_of gh current then Inl (GithubException ''409 Conflict'')
                  else Inr (gh\<lparr>repos := (repos gh)(full_name \<mapsto> files(path \<mapsto> content))\<rparr>))))"

definition gh_create_file ::
  "github \<Rightarrow> string \<Rightarrow> string \<Rightarrow> string \<Rightarrow> string \<Rightarrow> exn + github" where
  "gh_create_file gh full_name path message content =
     (case fault gh (CreateFile full_name path message content) of
        Some e \<Rightarrow> Inl e
      | None \<Rightarrow>
         (case repos gh full_name of
            None \<Rightarrow> Inl (GithubException ''404 Not Found'')
          | Some files \<Rightarrow>
             (case files path of
                Some current \<Rightarrow> Inl (GithubException ''422 Unprocessable Entity'')
              | None \<Rightarrow>
                  Inr (gh\<lparr>repos := (repos gh)(full_name \<mapsto> files(path \<mapsto> content))\<rparr>))))"

text \<open>The files of a repository, for the statements below (none when it does not exist).\<close>

definition repo_files :: "github \<Rightarrow> string \<Rightarrow> (string \<rightharpoonup> string)" where
  "repo_files gh full_name = (case repos gh full_name of None \<Rightarrow> Map.empty | Some files \<Rightarrow> files)"

text \<open>
  \<^verbatim>\<open>
  async def update_repository(self, name: str, code: dict) -> Tuple[str, str]:
      try:
          repo = self.github.get_repo(f"{self.user.login}/{name}")
          for filename, content in code.items():
              try:
                  file_contents = repo.get_contents(filename, ref="main")
                  repo.update_file(filename, f"Update {filename}", content,
                                   file_contents.sha, branch="main")
              except:
                  repo.create_file(filename, f"Add {filename}", content, branch="main")
          repo_url = repo.html_url
          pages_url = f"https://{self.user.login}.github.io/{name}"
          return repo_url, pages_url
      except GithubException as e:
          logger.error(f"GitHub update error: {str(e)}")
          raise
  \<close>
  \<open>upsert_file\<close> is one turn of the loop: the bare \<^verbatim>\<open>except\<close> sends a failure of
  either call of the inner \<^verbatim>\<open>try\<close> to \<^verbatim>\<open>create_file\<close>, and a failure of that one leaves
  the loop. The generated set is the dictionary's items in order (its keys are distinct).
  Each function returns the provider calls it made.
\<close>

definition upsert_file ::
  "github \<Rightarrow> string \<Rightarrow> string \<Rightarrow> string \<Rightarrow> (exn + github) \<times> gh_call list" where
  "upsert_file gh full_name filename content =
     (let create = CreateFile full_name filename (''Add '' @ filename) content;
          created = gh_create_file gh full_name filename (''Add '' @ filename) content
      in case gh_get_contents gh full_name filename of
           Inl e \<Rightarrow> (created, [GetContents full_name filename, create])
         | Inr sha \<Rightarrow>
            (let update = UpdateFile full_name filename (''Update '' @ filename) content sha
             in (case gh_update_file gh full_name filename (''Update '' @ filename) content sha of
                   Inl e \<Rightarrow> (created, [GetContents full_name filename, update, create])
                 | Inr gh' \<Rightarrow> (Inr gh', [GetContents full_name filename, update]))))"

fun update_files ::
  "github \<Rightarrow> string \<Rightarrow> (string \<times> string) list \<Rightarrow> (exn + unit) \<times> github \<times> gh_call list" where
  "update_files gh full_name [] = (Inr (), gh, [])"
| "update_files gh full_name ((filename, content) # rest) =
     (case upsert_file gh full_name filename content of
        (Inl e, calls) \<Rightarrow> (Inl e, gh, calls)
      | (Inr gh', calls) \<Rightarrow>
         (case update_files gh' full_name rest of
            (result, gh'', calls') \<Rightarrow> (result, gh'', calls @ calls')))"

definition html_url :: "string \<Rightarrow> string" where
  "html_url full_name = ''https://github.com/'' @ full_name"

definition update_repository ::
  "github \<Rightarrow> string \<Rightarrow> (string \<times> string) list
     \<Rightarrow> (exn + string \<times> string) \<times> github \<times> gh_call list" where
  "update_repository gh name code =
     (let full_name = login gh @ ''/'' @ name in
      case gh_get_repo gh full_name of
        Inl e \<Rightarrow> (Inl e, gh, [GetRepo full_name])
      | Inr repo \<Rightarrow>
         (case update_files gh full_name code of
            (Inl e, gh', calls) \<Rightarrow> (Inl e, gh', GetRepo full_name # calls)
          | (Inr done, gh', calls) \<Rightarrow>
              (Inr (html_url full_name, ''https://'' @ login gh @ ''.github.io/'' @ name),
               gh', GetRepo full_name # calls)))"

text \<open>
  \<^verbatim>\<open>
  async def get_latest_commit(self, repo_name: str) -> str:
      try:
          repo = self.github.get_repo(f"{self.user.login}/{repo_name}")
          branch = repo.get_branch("main")
          return branch.commit.sha
      except GithubException as e:
          logger.error(f"Error getting commit SHA: {str(e)}")
          return "unknown"
  \<close>
  \<open>commit_lookup\<close> is the body of the \<^verbatim>\<open>try\<close>. The \<^verbatim>\<open>except\<close> clause names one class:
  an exception of any other class leaves the function.
\<close>

definition commit_lookup :: "github \<Rightarrow> string \<Rightarrow> exn + string" where
  "commit_lookup gh repo_name =
     (let full_name = login gh @ ''/'' @ repo_name in
      case gh_get_repo gh full_name of
        Inl e \<Rightarrow> Inl e
      | Inr repo \<Rightarrow> gh_get_branch gh full_name ''main'')"

definition get_latest_commit :: "github \<Rightarrow> string \<Rightarrow> exn + string" where
  "get_latest_commit gh repo_name =
     (case commit_lookup gh repo_name of
        Inr sha \<Rightarrow> Inr sha
      | Inl (GithubException m) \<Rightarrow> Inr ''unknown''
      | Inl e \<Rightarrow> Inl e)"

section \<open>llm\_client.py: the generation adapter\<close>

text \<open>
  Python's string and container operations, as far as the client uses them:
  \<^verbatim>\<open>sep.join(xs)\<close>, \<^verbatim>\<open>s.find(c)\<close> and \<^verbatim>\<open>s.rfind(c)\<close> (the index or \<open>-1\<close>), the slice
  \<^verbatim>\<open>s[start:stop]\<close> (a negative bound counts from the end, every bound is clipped),
  \<^verbatim>\<open>v[0]\<close>, \<^verbatim>\<open>v[k]\<close> for a string key, \<^verbatim>\<open>k in v\<close> and \<^verbatim>\<open>v[k] = x\<close>, each with the
  exceptions it raises on a value of another type.
\<close>

fun py_join :: "string \<Rightarrow> string list \<Rightarrow> string" where
  "py_join sep [] = []"
| "py_join sep [x] = x"
| "py_join sep (x # y # ys) = x @ sep @ py_join sep (y # ys)"

definition py_find :: "string \<Rightarrow> char \<Rightarrow> int" where
  "py_find s c = (if c \<in> set s then int (length (takeWhile (\<lambda>x. x \<noteq> c) s)) else - 1)"

definition py_rfind :: "string \<Rightarrow> char \<Rightarrow> int" where
  "py_rfind s c =
     (if c \<in> set s then int (length s) - 1 - int (length (takeWhile (\<lambda>x. x \<noteq> c) (rev s)))
      else - 1)"

definition py_slice :: "string \<Rightarrow> int \<Rightarrow> int \<Rightarrow> string" where
  "py_slice s start stop =
     (let n = int (length s);
          lo = (if start < 0 then max 0 (n + start) else min start n);
          hi = (if stop < 0 then max 0 (n + stop) else min stop n)
      in take (nat (hi - lo)) (drop (nat lo) s))"

fun is_substring :: "string \<Rightarrow> string \<Rightarrow> bool" where
  "is_substring xs [] = (xs = [])"
| "is_substring xs (y # ys) = (take (length xs) (y # ys) = xs \<or> is_substring xs ys)"

fun py_getitem0 :: "pyval \<Rightarrow> exn + pyval" where
  "py_getitem0 (PList []) = Inl (Exception ''IndexError'')"
| "py_getitem0 (PList (x # xs)) = Inr x"
| "py_getitem0 (PStr []) = Inl (Exception ''IndexError'')"
| "py_getitem0 (PStr (c # cs)) = Inr (PStr [c])"
| "py_getitem0 (PDict kvs) = Inl (KeyError ''0'')"
| "py_getitem0 v = Inl (TypeError ''object is not subscriptable'')"

fun py_getitem :: "pyval \<Rightarrow> string \<Rightarrow> exn + pyval" where
  "py_getitem (PDict kvs) k = (case map_of kvs k of None \<Rightarrow> Inl (KeyError k) | Some v \<Rightarrow> Inr v)"
| "py_getitem v k = Inl (TypeError ''indices must be integers'')"

fun py_contains :: "pyval \<Rightarrow> string \<Rightarrow> exn + bool" where
  "py_contains (PDict kvs) k = Inr (k \<in> fst ` set kvs)"
| "py_contains (PList xs) k = Inr (PStr k \<in> set xs)"
| "py_contains (PStr s) k = Inr (is_substring k s)"
| "py_contains v k = Inl (TypeError ''argument is not iterable'')"

fun py_setitem :: "pyval \<Rightarrow> string \<Rightarrow> pyval \<Rightarrow> exn + pyval" where
  "py_setitem (PDict kvs) k x = Inr (PDict (AList.update k x kvs))"
| "py_setitem v k x = Inl (TypeError ''object does not support item assignment'')"

text \<open>
  The texts of \<^verbatim>\<open>_get_template_file\<close> and of the \<^verbatim>\<open>README.md\<close> entry of
  \<^verbatim>\<open>_generate_template_code_dict\<close>, line by line.
\<close>

definition template_readme :: "string \<Rightarrow> string" where
  "template_readme brief =
     py_join [CHR 0x0A]
      [''# Generated Application'',
       '''',
       ''## Description'',
       '''']
     @ brief
     @ py_join [CHR 0x0A]
      ['''',
       '''',
       ''## Setup'',
       ''1. Clone this repository'',
       ''2. Open `index.html` in a web browser'',
       ''3. No build process required'',
       '''',
       ''## Features'',
       ''- Responsive design'',
       ''- Modern UI components'',
       ''- Cross-browser compatible'',
       '''',
       ''## License'',
       ''MIT License'',
       '''']"

definition template_index_html :: string where
  "template_index_html =
     py_join [CHR 0x0A]
      [''<!DOCTYPE html>'',
       ''<html lang=\"en\">'',
       ''<head>'',
       ''    <meta charset=\"UTF-8\">'',
       ''    <meta name=\"viewport\" content=\"width=device-width, initial-scale=1.0\">'',
       ''    <title>Generated App</title>'',
       ''    <link rel=\"stylesheet\" href=\"style.css\">'',
       ''</head>'',
       ''<body>'',
       ''    <div class=\"container\">'',
       ''        <h1>Generated Application</h1>'',
       ''        <div id=\"app-content\">'',
       ''            <p>Application content will be loaded here.</p>'',
       ''        </div>'',
       ''    </div>'',
       ''    <script src=\"script.js\"></script>'',
       ''</body>'',
       ''</html>'']"

definition template_style_css :: string where
  "template_style_css =
     py_join [CHR 0x0A]
      [''/* Generated Application Styles */'',
       ''body {'',
       ''    font-family: Arial, sans-serif;'',
       ''    margin: 0;'',
       ''    padding: 20px;'',
       ''    background-color: #f5f5f5;'',
       ''}'',
       '''',
       ''.container {'',
       ''    max-width: 800px;'',
       ''    margin: 0 auto;'',
       ''    background: white;'',
       ''    padding: 20px;'',
       ''    border-radius: 8px;'',
       ''    box-shadow: 0 2px 4px rgba(0,0,0,0.1);'',
       ''}'',
       '''',
       ''h1 {'',
       ''    color: #333;'',
       ''    text-align: center;'',
       ''}'',
       '''',
       ''#app-content {'',
       ''    margin-top: 20px;'',
       ''    padding: 20px;'',
       ''    border: 1px solid #ddd;'',
       ''    border-radius: 4px;'',
       ''}'']"

definition template_script_js :: string where
  "template_script_js =
     py_join [CHR 0x0A]
      [''// Generated Application JavaScript'',
       ''document.addEventListener('DOMContentLoaded', function() {'',
       ''    console.log('Generated application loaded');'',
       ''    '',
       ''    // Basic functionality'',
       ''    const appContent = document.getElementById('app-content');'',
       ''    if (appContent) {'',
       ''        appContent.innerHTML = '<p>Application is running successfully!</p>';'',
       ''    }'',
       ''});'']"

definition template_license :: string where
  "template_license =
     py_join [CHR 0x0A]
      [''MIT License'',
       '''',
       ''Copyright (c) 2024 Generated Application'',
       '''',
       ''Permission is hereby granted, free of charge, to any person obtaining a copy'',
       ''of this software and associated documentation files (the \"Software\"), to deal'',
       ''in the Software without restriction, including without limitation the rights'',
       ''to use, copy, modify, merge, publish, distribute, sublicense, and/or sell'',
       ''copies of the Software, and to permit persons to whom the Software is'',
       ''furnished to do so, subject to the following conditions:'',
       '''',
       ''The above copyright notice and this permission notice shall be included in all'',
       ''copies or substantial portions of the Software.'',
       '''',
       ''THE SOFTWARE IS PROVIDED \"AS IS\", WITHOUT WARRANTY OF ANY KIND, EXPRESS OR'',
       ''IMPLIED, INCLUDING BUT NOT LIMITED TO THE WARRANTIES OF MERCHANTABILITY,'',
       ''FITNESS FOR A PARTICULAR PURPOSE AND NONINFRINGEMENT. IN NO EVENT SHALL THE'',
       ''AUTHORS OR COPYRIGHT HOLDERS BE LIABLE FOR ANY CLAIM, DAMAGES OR OTHER'',
       ''LIABILITY, WHETHER IN AN ACTION OF CONTRACT, TORT OR OTHERWISE, ARISING FROM,'',
       ''OUT OF OR IN CONNECTION WITH THE SOFTWARE OR THE USE OR OTHER DEALINGS IN THE'',
       ''SOFTWARE.'']"

definition template_dict_readme :: "string \<Rightarrow> string" where
  "template_dict_readme brief =
     py_join [CHR 0x0A]
      [''# Generated App'',
       '''',
       '''']
     @ brief
     @ py_join [CHR 0x0A]
      ['''',
       '''',
       ''## Setup'',
       ''Open index.html in a browser.'']"

text \<open>
  \<^verbatim>\<open>
  def _get_template_file(self, filename, brief):
      templates = {"README.md": ..., "index.html": ..., "style.css": ...,
                   "script.js": ..., "LICENSE": ...}
      return templates.get(filename, f"# {filename}\n\nContent for {filename}")

  def _generate_template_code_dict(self, brief):
      return {"README.md": f"# Generated App\n\n{brief}\n\n## Setup\nOpen index.html in a browser.",
              "index.html": self._get_template_file("index.html", brief), ...}

  def _generate_fallback_code(self, brief, checks):
      return self._generate_template_code_dict(brief)
  \<close>
  (An Isabelle name cannot begin with an underscore: the private methods lose theirs.)
\<close>

definition get_template_file :: "string \<Rightarrow> string \<Rightarrow> string" where
  "get_template_file filename brief =
     (case map_of
             [(''README.md'', template_readme brief),
              (''index.html'', template_index_html),
              (''style.css'', template_style_css),
              (''script.js'', template_script_js),
              (''LICENSE'', template_license)] filename of
        Some template \<Rightarrow> template
      | None \<Rightarrow> ''# '' @ filename @ [CHR 0x0A, CHR 0x0A] @ ''Content for '' @ filename)"

definition generate_template_code_dict :: "string \<Rightarrow> pydict" where
  "generate_template_code_dict brief =
     [(''README.md'', PStr (template_dict_readme brief)),
      (''index.html'', PStr (get_template_file ''index.html'' brief)),
      (''style.css'', PStr (get_template_file ''style.css'' brief)),
      (''script.js'', PStr (get_template_file ''script.js'' brief)),
      (''LICENSE'', PStr (get_template_file ''LICENSE'' brief))]"

definition generate_fallback_code :: "string \<Rightarrow> string list \<Rightarrow> pydict" where
  "generate_fallback_code brief checks = generate_template_code_dict brief"

text \<open>
  The JSON library and the text generator are outside the repository and are
  parameters: \<^verbatim>\<open>json.loads\<close> returns a value or raises, \<^verbatim>\<open>json.dumps\<close> returns a text,
  and \<^verbatim>\<open>self.generator\<close> is \<^verbatim>\<open>None\<close> (the model failed to load) or a function from
  the prompt to what the call returns or raises.
\<close>

record json_lib =
  json_loads :: "string \<Rightarrow> exn + pyval"
  json_dumps :: "pyval \<Rightarrow> string"

record LLMClient =
  generator :: "(string \<Rightarrow> exn + pyval) option"

text \<open>\<^verbatim>\<open>_build_prompt\<close>: one formatted text; it reads no attachment.\<close>

definition build_prompt ::
  "string \<Rightarrow> string list \<Rightarrow> string list option \<Rightarrow> string option \<Rightarrow> string" where
  "build_prompt brief checks attachments existing_repo =
     py_join [CHR 0x0A]
      ['''',
       ''        Create a complete web application based on this brief:'',
       ''        '',
       ''        BRIEF: '']
     @ brief
     @ py_join [CHR 0x0A]
      ['''',
       ''        '',
       ''        REQUIREMENTS:'',
       ''        '']
     @ py_join [CHR 0x0A] (map (\<lambda>check. ''- '' @ check) checks)
     @ py_join [CHR 0x0A]
      ['''',
       ''        '',
       ''        '']
     @ (case existing_repo of
          Some repo \<Rightarrow> if repo \<noteq> [] then ''EXISTING REPOSITORY: '' @ repo else ''NEW APPLICATION''
        | None \<Rightarrow> ''NEW APPLICATION'')
     @ py_join [CHR 0x0A]
      ['''',
       ''        '',
       ''        Generate the following files in JSON format:'',
       ''        {'',
       ''            \"README.md\": \"Complete README with setup instructions\",'',
       ''            \"index.html\": \"Main HTML file\",'',
       ''            \"style.css\": \"CSS styles\",'',
       ''            \"script.js\": \"JavaScript functionality\",'',
       ''            \"LICENSE\": \"MIT License content\"'',
       ''        }'',
       ''        '',
       ''        Ensure the code is:'',
       ''        - Complete and runnable'',
       ''        - Well-documented'',
       ''        - Follows best practices'',
       ''        - Meets all requirements'',
       ''        '',
       ''        Return only valid JSON:'',
       ''        '']"

definition generate_template_code :: "json_lib \<Rightarrow> string \<Rightarrow> string list \<Rightarrow> string" where
  "generate_template_code json brief checks = json_dumps json (PDict (generate_template_code_dict brief))"

text \<open>
  \<^verbatim>\<open>
  def _parse_generated_code(self, generated_text, brief):
      try:
          json_start = generated_text.find('{')
          json_end = generated_text.rfind('}') + 1
          json_str = generated_text[json_start:json_end]
          code_files = json.loads(json_str)
      except:
          code_files = self._generate_template_code_dict(brief)
      required_files = ['README.md', 'index.html', 'style.css', 'script.js', 'LICENSE']
      for file in required_files:
          if file not in code_files:
              code_files[file] = self._get_template_file(file, brief)
      return code_files
  \<close>
  A generated text that is not a string has no \<^verbatim>\<open>find\<close>: the bare \<^verbatim>\<open>except\<close> catches
  that too. The loop runs outside the \<^verbatim>\<open>try\<close>, so what it raises leaves the function.
\<close>

definition required_files :: "string list" where
  "required_files = [''README.md'', ''index.html'', ''style.css'', ''script.js'', ''LICENSE'']"

definition json_str_of :: "string \<Rightarrow> string" where
  "json_str_of generated_text =
     (let json_start = py_find generated_text (CHR ''{'');
          json_end = py_rfind generated_text (CHR ''}'') + 1
      in py_slice generated_text json_start json_end)"

fun ensure_required :: "string \<Rightarrow> pyval \<Rightarrow> string list \<Rightarrow> exn + pyval" where
  "ensure_required brief code_files [] = Inr code_files"
| "ensure_required brief code_files (file # files) =
     (case py_contains code_files file of
        Inl e \<Rightarrow> Inl e
      | Inr present \<Rightarrow>
          if \<not> present
          then (case py_setitem code_files file (PStr (get_template_file file brief)) of
                  Inl e \<Rightarrow> Inl e
                | Inr code_files' \<Rightarrow> ensure_required brief code_files' files)
          else ensure_required brief code_files files)"

definition parse_generated_code :: "json_lib \<Rightarrow> pyval \<Rightarrow> string \<Rightarrow> exn + pyval" where
  "parse_generated_code json generated_text brief =
     (let code_files =
            (case generated_text of
               PStr text \<Rightarrow>
                (case json_loads json (json_str_of text) of
                   Inl e \<Rightarrow> PDict (generate_template_code_dict brief)
                 | Inr parsed \<Rightarrow> parsed)
             | other \<Rightarrow> PDict (generate_template_code_dict brief))
      in ensure_required brief code_files required_files)"

text \<open>
  \<^verbatim>\<open>
  async def generate_app_code(self, brief, checks, attachments=None, existing_repo=None):
      prompt = self._build_prompt(brief, checks, attachments, existing_repo)
      try:
          if self.generator:
              result = self.generator(prompt, max_new_tokens=1024, ...)
              generated_text = result[0]['generated_text']
          else:
              generated_text = self._generate_template_code(brief, checks)
          code_files = self._parse_generated_code(generated_text, brief)
          return code_files
      except Exception as e:
          logger.error(f"Code generation failed: {str(e)}")
          return self._generate_fallback_code(brief, checks)
  \<close>
  The arguments have their annotated types: \<^verbatim>\<open>brief: str\<close>, \<^verbatim>\<open>checks: List[str]\<close>, and
  for the two optional ones a value or \<^verbatim>\<open>None\<close>. \<open>generated_text_of\<close> is the part of the
  \<^verbatim>\<open>try\<close> that obtains the text.
\<close>

definition generated_text_of ::
  "json_lib \<Rightarrow> LLMClient \<Rightarrow> string \<Rightarrow> string \<Rightarrow> string list \<Rightarrow> exn + pyval" where
  "generated_text_of json self prompt brief checks =
     (case generator self of
        Some generate \<Rightarrow>
         (case generate prompt of
            Inl e \<Rightarrow> Inl e
          | Inr result \<Rightarrow>
             (case py_getitem0 result of
                Inl e \<Rightarrow> Inl e
              | Inr first \<Rightarrow> py_getitem first ''generated_text''))
      | None \<Rightarrow> Inr (PStr (generate_template_code json brief checks)))"

definition generate_app_code ::
  "json_lib \<Rightarrow> LLMClient \<Rightarrow> string \<Rightarrow> string list \<Rightarrow> string list option \<Rightarrow> string option
     \<Rightarrow> exn + pyval" where
  "generate_app_code json self brief checks attachments existing_repo =
     (let prompt = build_prompt brief checks attachments existing_repo in
      case (case generated_text_of json self prompt brief checks of
              Inl e \<Rightarrow> Inl e
            | Inr generated_text \<Rightarrow> parse_generated_code json generated_text brief) of
        Inl e \<Rightarrow> Inr (PDict (generate_fallback_code brief checks))
      | Inr code_files \<Rightarrow> Inr code_files)"

section \<open>Dictionaries and truth values\<close>

text \<open>\<^verbatim>\<open>d.get(k)\<close> is \<^verbatim>\<open>None\<close> for a missing key; \<^verbatim>\<open>not v\<close> is Python's truth test.\<close>

definition dict_get :: "pydict \<Rightarrow> string \<Rightarrow> pyval" where
  "dict_get d k = (case map_of d k of None \<Rightarrow> PNone | Some v \<Rightarrow> v)"

fun truthy :: "pyval \<Rightarrow> bool" where
  "truthy PNone = False"
| "truthy (PBool b) = b"
| "truthy (PInt i) = (i \<noteq> 0)"
| "truthy (PStr s) = (s \<noteq> [])"
| "truthy (PList xs) = (xs \<noteq> [])"
| "truthy (PDict kvs) = (kvs \<noteq> [])"

section \<open>main.py: the task record store and the request handlers\<close>

text \<open>
  \<^verbatim>\<open>task_store = {}\<close> maps a task id to \<^verbatim>\<open>{"request": request.dict(), "status": ...}\<close>.
  The two process-wide dictionaries make up the state that every handler and pipeline
  run reads and writes.
\<close>

record task_record =
  tr_request :: pydict
  tr_status :: string

type_synonym task_store = "string \<rightharpoonup> task_record"

record state =
  SECRET_STORE :: secret_store
  task_store :: task_store

text \<open>
  A handler returns a \<^verbatim>\<open>JSONResponse(status_code, content)\<close> with the background task
  it has scheduled, or raises. \<open>task_id_of\<close> is \<^verbatim>\<open>f"{request.task}-{request.round}"\<close>.
\<close>

datatype JSONResponse = JSONResponse int "(string \<times> string) list"

datatype job = BuildJob BuildRequest | RevisionJob RevisionRequest

type_synonym handler_result = "exn + JSONResponse \<times> job"

definition task_id_of :: "string \<Rightarrow> int \<Rightarrow> string" where
  "task_id_of task round = task @ ''-'' @ str_int round"

text \<open>
  \<^verbatim>\<open>
  @app.post("/api/deploy")
  async def deploy_app(request: BuildRequest, background_tasks: BackgroundTasks):
      try:
          if not verify_secret(request.email, request.secret):
              raise HTTPException(status_code=401, detail="Invalid secret")
          task_id = f"{request.task}-{request.round}"
          task_store[task_id] = {"request": request.dict(), "status": "processing"}
          background_tasks.add_task(process_build_request, request)
          return JSONResponse(status_code=200,
                              content={"status": "accepted", "task_id": task_id})
      except Exception as e:
          logger.error(f"Deployment error: {str(e)}")
          raise HTTPException(status_code=500, detail=str(e))
  \<close>
  \<open>deploy_app_try\<close> is the body of the \<^verbatim>\<open>try\<close>, \<open>deploy_app\<close> the handler with its
  \<^verbatim>\<open>except\<close> clause. \<^verbatim>\<open>HTTPException\<close> is a subclass of \<^verbatim>\<open>Exception\<close>, so the clause
  catches the exceptions the body raises itself.
\<close>

definition deploy_app_try :: "BuildRequest \<Rightarrow> state \<Rightarrow> handler_result \<times> state" where
  "deploy_app_try request s =
     (case verify_secret (req_email request) (req_secret request) (SECRET_STORE s) of
        (verified, secrets) \<Rightarrow>
          let s1 = s\<lparr>SECRET_STORE := secrets\<rparr> in
          if \<not> verified then (Inl (HTTPException 401 ''Invalid secret''), s1)
          else
            let task_id = task_id_of (req_task request) (req_round request);
                s2 = s1\<lparr>task_store := (task_store s1)
                       (task_id \<mapsto> \<lparr>tr_request = Request_dict request, tr_status = ''processing''\<rparr>)\<rparr>
            in (Inr (JSONResponse 200 [(''status'', ''accepted''), (''task_id'', task_id)],
                     BuildJob request), s2))"

definition deploy_app :: "BuildRequest \<Rightarrow> state \<Rightarrow> handler_result \<times> state" where
  "deploy_app request s =
     (case deploy_app_try request s of
        (Inl e, s') \<Rightarrow> (Inl (HTTPException 500 (str_exn e)), s')
      | (Inr response, s') \<Rightarrow> (Inr response, s'))"

text \<open>
  \<^verbatim>\<open>
  @app.post("/api/revise")
  async def revise_app(request: RevisionRequest, background_tasks: BackgroundTasks):
      try:
          if not verify_secret(request.email, request.secret):
              raise HTTPException(status_code=401, detail="Invalid secret")
          round1_task_id = f"{request.task}-1"
          if round1_task_id not in task_store:
              raise HTTPException(status_code=404, detail="Original task not found")
          task_id = f"{request.task}-{request.round}"
          task_store[task_id] = {"request": request.dict(), "status": "processing"}
          background_tasks.add_task(process_revision_request, request)
          return JSONResponse(status_code=200,
                              content={"status": "accepted", "task_id": task_id})
      except Exception as e:
          logger.error(f"Revision error: {str(e)}")
          raise HTTPException(status_code=500, detail=str(e))
  \<close>
\<close>

definition revise_app_try :: "RevisionRequest \<Rightarrow> state \<Rightarrow> handler_result \<times> state" where
  "revise_app_try request s =
     (case verify_secret (req_email request) (req_secret request) (SECRET_STORE s) of
        (verified, secrets) \<Rightarrow>
          let s1 = s\<lparr>SECRET_STORE := secrets\<rparr> in
          if \<not> verified then (Inl (HTTPException 401 ''Invalid secret''), s1)
          else
            let round1_task_id = req_task request @ ''-1'' in
            if task_store s1 round1_task_id = None
            then (Inl (HTTPException 404 ''Original task not found''), s1)
            else
              let task_id = task_id_of (req_task request) (req_round request);
                  s2 = s1\<lparr>task_store := (task_store s1)
                         (task_id \<mapsto> \<lparr>tr_request = Request_dict request, tr_status = ''processing''\<rparr>)\<rparr>
              in (Inr (JSONResponse 200 [(''status'', ''accepted''), (''task_id'', task_id)],
                       RevisionJob request), s2))"

definition revise_app :: "RevisionRequest \<Rightarrow> state \<Rightarrow> handler_result \<times> state" where
  "revise_app request s =
     (case revise_app_try request s of
        (Inl e, s') \<Rightarrow> (Inl (HTTPException 500 (str_exn e)), s')
      | (Inr response, s') \<Rightarrow> (Inr response, s'))"

text \<open>
  The status the client receives: the framework answers a raised \<^verbatim>\<open>HTTPException\<close> with
  its status code and any other exception with 500; a returned response carries its own.
\<close>

fun http_status :: "handler_result \<Rightarrow> int" where
  "http_status (Inl (HTTPException code detail)) = code"
| "http_status (Inl e) = 500"
| "http_status (Inr (JSONResponse code content, j)) = code"

section \<open>main.py: the build and revision pipelines\<close>

text \<open>
  The pipelines call the module-level clients \<^verbatim>\<open>llm_client\<close>, \<^verbatim>\<open>github_client\<close> and
  \<^verbatim>\<open>evaluation_client\<close>, \<^verbatim>\<open>save_attachments\<close> and \<^verbatim>\<open>uuid.uuid4()\<close>. A pipeline run is
  given these collaborators as a record: each client method is a function to the value it
  returns or the exception it raises, \<^verbatim>\<open>save_attachments\<close> (which absorbs every error
  itself) a function to the staged paths, and \<open>uuid4_hex\<close> the hexadecimal form of the
  identifier drawn in this run. A repository name read back from a stored dictionary is a
  Python value, as are the existing-repository hint (\<^verbatim>\<open>None\<close> in a build) and the name
  handed to the commit lookup.
\<close>

record adapters =
  save_attachments :: "Attachment list \<Rightarrow> string list"
  uuid4_hex :: string
  llm_generate_app_code :: "string \<Rightarrow> string list \<Rightarrow> string list \<Rightarrow> pyval \<Rightarrow> exn + pydict"
  github_create_repository :: "string \<Rightarrow> pydict \<Rightarrow> string \<Rightarrow> exn + string \<times> string"
  github_update_repository :: "pyval \<Rightarrow> pydict \<Rightarrow> exn + string \<times> string"
  github_get_latest_commit :: "pyval \<Rightarrow> exn + string"
  evaluation_submit :: "EvaluationResponse \<Rightarrow> string \<Rightarrow> exn + bool"

text \<open>What a run does, in order: the collaborator calls it makes and the statuses it writes.\<close>

datatype event =
    Generate string "string list" "string list" pyval
  | CreateRepository string pydict string
  | UpdateRepository pyval pydict
  | GetLatestCommit pyval
  | SubmitEvaluation EvaluationResponse string
  | SetStatus string string

fun status_writes :: "event list \<Rightarrow> (string \<times> string) list" where
  "status_writes [] = []"
| "status_writes (SetStatus k v # es) = (k, v) # status_writes es"
| "status_writes (e # es) = status_writes es"

fun publication_calls :: "event list \<Rightarrow> event list" where
  "publication_calls [] = []"
| "publication_calls (CreateRepository n c d # es) = CreateRepository n c d # publication_calls es"
| "publication_calls (UpdateRepository n c # es) = UpdateRepository n c # publication_calls es"
| "publication_calls (e # es) = publication_calls es"

text \<open>\<^verbatim>\<open>task_store[k]["status"] = v\<close> raises \<^verbatim>\<open>KeyError\<close> when \<open>k\<close> has no record.\<close>

definition set_status :: "string \<Rightarrow> string \<Rightarrow> task_store \<Rightarrow> exn + task_store" where
  "set_status k v ts =
     (case ts k of
        None \<Rightarrow> Inl (KeyError k)
      | Some r \<Rightarrow> Inr (ts(k \<mapsto> r\<lparr>tr_status := v\<rparr>)))"

definition build_repo_name :: "adapters \<Rightarrow> BuildRequest \<Rightarrow> string" where
  "build_repo_name ad request = req_task request @ ''-'' @ take 8 (uuid4_hex ad)"

definition build_description :: "BuildRequest \<Rightarrow> string" where
  "build_description request = ''Generated app for: '' @ take 100 (req_brief request) @ ''...''"

definition evaluation_payload :: "Request \<Rightarrow> string \<Rightarrow> string \<Rightarrow> string \<Rightarrow> EvaluationResponse" where
  "evaluation_payload request repo_url commit_sha pages_url =
     EvaluationResponse (req_email request) (req_task request) (req_round request)
       (req_nonce request) repo_url commit_sha pages_url"

text \<open>
  The steps both pipelines share once the repository is published: read the commit id
  back, build the payload, notify, write \<^verbatim>\<open>completed\<close> or \<^verbatim>\<open>evaluation_failed\<close>.
  \<^verbatim>\<open>
  commit_sha = await github_client.get_latest_commit(repo_name)
  eval_response = EvaluationResponse(email=request.email, ..., pages_url=pages_url)
  success = await evaluation_client.submit_evaluation(eval_response, request.evaluation_url)
  if success:
      task_store[f"{request.task}-{request.round}"]["status"] = "completed"
  else:
      task_store[f"{request.task}-{request.round}"]["status"] = "evaluation_failed"
  \<close>
\<close>

definition notify_and_record ::
  "adapters \<Rightarrow> Request \<Rightarrow> pyval \<Rightarrow> string \<Rightarrow> string \<Rightarrow> task_store \<Rightarrow> event list
     \<Rightarrow> (exn + unit) \<times> task_store \<times> event list" where
  "notify_and_record ad request repo_name repo_url pages_url ts ev =
     (let ev3 = ev @ [GetLatestCommit repo_name] in
      case github_get_latest_commit ad repo_name of
        Inl e \<Rightarrow> (Inl e, ts, ev3)
      | Inr commit_sha \<Rightarrow>
         (let eval_response = evaluation_payload request repo_url commit_sha pages_url;
              ev4 = ev3 @ [SubmitEvaluation eval_response (req_evaluation_url request)]
          in (case evaluation_submit ad eval_response (req_evaluation_url request) of
                Inl e \<Rightarrow> (Inl e, ts, ev4)
              | Inr success \<Rightarrow>
                 (let k = task_id_of (req_task request) (req_round request);
                      v = (if success then ''completed'' else ''evaluation_failed'')
                  in (case set_status k v ts of
                        Inl e \<Rightarrow> (Inl e, ts, ev4)
                      | Inr ts' \<Rightarrow> (Inr (), ts', ev4 @ [SetStatus k v]))))))"

text \<open>
  \<^verbatim>\<open>
  async def process_build_request(request: BuildRequest):
      try:
          attachment_paths = save_attachments(request.attachments)
          generated_code = await llm_client.generate_app_code(
              brief=request.brief, checks=request.checks, attachments=attachment_paths)
          repo_name = f"{request.task}-{uuid.uuid4().hex[:8]}"
          repo_url, pages_url = await github_client.create_repository(
              name=repo_name, code=generated_code,
              description=f"Generated app for: {request.brief[:100]}...")
          ...
      except Exception as e:
          task_store[f"{request.task}-{request.round}"]["status"] = "failed"
  \<close>
\<close>

definition process_build_request_try ::
  "adapters \<Rightarrow> BuildRequest \<Rightarrow> task_store \<Rightarrow> (exn + unit) \<times> task_store \<times> event list" where
  "process_build_request_try ad request ts =
     (let attachment_paths = save_attachments ad (req_attachments request);
          ev1 = [Generate (req_brief request) (req_checks request) attachment_paths PNone]
      in case llm_generate_app_code ad (req_brief request) (req_checks request)
                attachment_paths PNone of
           Inl e \<Rightarrow> (Inl e, ts, ev1)
         | Inr generated_code \<Rightarrow>
            (let repo_name = build_repo_name ad request;
                 ev2 = ev1 @ [CreateRepository repo_name generated_code (build_description request)]
             in (case github_create_repository ad repo_name generated_code
                        (build_description request) of
                   Inl e \<Rightarrow> (Inl e, ts, ev2)
                 | Inr (repo_url, pages_url) \<Rightarrow>
                     notify_and_record ad request (PStr repo_name) repo_url pages_url ts ev2)))"

definition on_pipeline_exception ::
  "Request \<Rightarrow> (exn + unit) \<times> task_store \<times> event list
     \<Rightarrow> (exn + unit) \<times> task_store \<times> event list" where
  "on_pipeline_exception request outcome =
     (case outcome of
        (Inl e, ts, ev) \<Rightarrow>
          (let k = task_id_of (req_task request) (req_round request) in
           case set_status k ''failed'' ts of
             Inl e' \<Rightarrow> (Inl e', ts, ev)
           | Inr ts' \<Rightarrow> (Inr (), ts', ev @ [SetStatus k ''failed'']))
      | (Inr u, ts, ev) \<Rightarrow> (Inr u, ts, ev))"

definition process_build_request ::
  "adapters \<Rightarrow> BuildRequest \<Rightarrow> task_store \<Rightarrow> (exn + unit) \<times> task_store \<times> event list" where
  "process_build_request ad request ts =
     on_pipeline_exception request (process_build_request_try ad request ts)"

text \<open>
  \<^verbatim>\<open>
  async def process_revision_request(request: RevisionRequest):
      try:
          round1_task_id = f"{request.task}-1"
          original_request = task_store[round1_task_id]["request"]
          repo_name = original_request.get("repo_name")
          if not repo_name:
              raise Exception("Original repository not found")
          updated_code = await llm_client.generate_app_code(
              brief=request.brief, checks=request.checks,
              attachments=save_attachments(request.attachments), existing_repo=repo_name)
          repo_url, pages_url = await github_client.update_repository(
              name=repo_name, code=updated_code)
          ...
      except Exception as e:
          task_store[f"{request.task}-{request.round}"]["status"] = "failed"
  \<close>
\<close>

definition process_revision_request_try ::
  "adapters \<Rightarrow> RevisionRequest \<Rightarrow> task_store \<Rightarrow> (exn + unit) \<times> task_store \<times> event list" where
  "process_revision_request_try ad request ts =
     (let round1_task_id = req_task request @ ''-1'' in
      case ts round1_task_id of
        None \<Rightarrow> (Inl (KeyError round1_task_id), ts, [])
      | Some round1 \<Rightarrow>
         (let original_request = tr_request round1;
              repo_name = dict_get original_request ''repo_name''
          in if \<not> truthy repo_name
             then (Inl (Exception ''Original repository not found''), ts, [])
             else
              (let attachment_paths = save_attachments ad (req_attachments request);
                   ev1 = [Generate (req_brief request) (req_checks request) attachment_paths repo_name]
               in (case llm_generate_app_code ad (req_brief request) (req_checks request)
                          attachment_paths repo_name of
                     Inl e \<Rightarrow> (Inl e, ts, ev1)
                   | Inr updated_code \<Rightarrow>
                      (let ev2 = ev1 @ [UpdateRepository repo_name updated_code]
                       in (case github_update_repository ad repo_name updated_code of
                             Inl e \<Rightarrow> (Inl e, ts, ev2)
                           | Inr (repo_url, pages_url) \<Rightarrow>
                               notify_and_record ad request repo_name repo_url pages_url ts ev2))))))"

definition process_revision_request ::
  "adapters \<Rightarrow> RevisionRequest \<Rightarrow> task_store \<Rightarrow> (exn + unit) \<times> task_store \<times> event list" where
  "process_revision_request ad request ts =
     on_pipeline_exception request (process_revision_request_try ad request ts)"

text \<open>
  The states the service can be in: it starts with both dictionaries empty, and from
  then on a validated request reaches a handler or a scheduled pipeline run executes,
  with any collaborators. A build run touches \<^verbatim>\<open>task_store\<close> once, when it writes its
  status; a revision run reads the round-1 record when it starts and writes its status
  when it ends. Each run is taken as one step.
\<close>

inductive step :: "state \<Rightarrow> state \<Rightarrow> bool" where
  deploy: "BuildRequest_valid request \<Longrightarrow> step s (snd (deploy_app request s))"
| revise: "RevisionRequest_valid request \<Longrightarrow> step s (snd (revise_app request s))"
| build_run:
    "step s (s\<lparr>task_store := fst (snd (process_build_request ad request (task_store s)))\<rparr>)"
| revision_run:
    "step s (s\<lparr>task_store := fst (snd (process_revision_request ad request (task_store s)))\<rparr>)"

inductive steps :: "state \<Rightarrow> state \<Rightarrow> bool" where
  no_step: "steps s s"
| next_step: "steps s s' \<Longrightarrow> step s' s'' \<Longrightarrow> steps s s''"

definition initial_state :: state where
  "initial_state = \<lparr>SECRET_STORE = Map.empty, task_store = Map.empty\<rparr>"

definition reachable :: "state \<Rightarrow> bool" where
  "reachable s = steps initial_state s"

section \<open>Invariants of the task store\<close>

text \<open>
  Two stores hold the same requests when they have the same task ids and each id keeps
  its stored request (only statuses may differ); a store has no repository name when no
  stored request has the key \<^verbatim>\<open>repo_name\<close>.
\<close>

definition same_requests :: "task_store \<Rightarrow> task_store \<Rightarrow> bool" where
  "same_requests ts ts' = (\<forall>k. map_option tr_request (ts' k) = map_option tr_request (ts k))"

definition no_repo_name :: "task_store \<Rightarrow> bool" where
  "no_repo_name ts = (\<forall>k r. ts k = Some r \<longrightarrow> map_of (tr_request r) ''repo_name'' = None)"

section \<open>The provider calls of an upsert, and an example repository\<close>

text \<open>
  What one turn of the loop asks of a provider that answers every call: read the file,
  then update it when the read found it, create it when not.
\<close>

definition upsert_calls :: "github \<Rightarrow> string \<Rightarrow> (string \<rightharpoonup> string) \<Rightarrow> string \<times> string \<Rightarrow> gh_call list" where
  "upsert_calls gh full_name files fc =
     (case fc of (filename, content) \<Rightarrow>
        [GetContents full_name filename,
         (case files filename of
            Some current \<Rightarrow>
              UpdateFile full_name filename (''Update '' @ filename) content (sha_of gh current)
          | None \<Rightarrow> CreateFile full_name filename (''Add '' @ filename) content)])"

text \<open>
  A repository published in round 1, holding a page and a file that the next round does
  not generate again.
\<close>

definition example_github :: github where
  "example_github =
     \<lparr>login = ''u'',
      repos = [''u/alpha-1234abcd'' \<mapsto> [''index.html'' \<mapsto> ''old page'', ''notes.txt'' \<mapsto> ''round 1'']],
      branch_head = (\<lambda>full_name branch. None),
      sha_of = (\<lambda>content. ''sha:'' @ content),
      fault = (\<lambda>call. None)\<rparr>"

section \<open>What a build run sees, and a worked example\<close>

text \<open>
  The answers of the collaborators to the calls a build run makes, named so that the
  properties below can refer to them, and the projections of a run's outcome.
\<close>

definition generation_result :: "adapters \<Rightarrow> BuildRequest \<Rightarrow> exn + pydict" where
  "generation_result ad request =
     llm_generate_app_code ad (req_brief request) (req_checks request)
       (save_attachments ad (req_attachments request)) PNone"

definition publication_result :: "adapters \<Rightarrow> BuildRequest \<Rightarrow> pydict \<Rightarrow> exn + string \<times> string" where
  "publication_result ad request code =
     github_create_repository ad (build_repo_name ad request) code (build_description request)"

definition commit_result :: "adapters \<Rightarrow> BuildRequest \<Rightarrow> exn + string" where
  "commit_result ad request = github_get_latest_commit ad (PStr (build_repo_name ad request))"

definition notifier_result ::
  "adapters \<Rightarrow> Request \<Rightarrow> string \<Rightarrow> string \<Rightarrow> string \<Rightarrow> exn + bool" where
  "notifier_result ad request repo_url commit_sha pages_url =
     evaluation_submit ad (evaluation_payload request repo_url commit_sha pages_url)
       (req_evaluation_url request)"

definition final_status :: "(exn + unit) \<times> task_store \<times> event list \<Rightarrow> string \<Rightarrow> string option" where
  "final_status outcome k = map_option tr_status (fst (snd outcome) k)"

definition run_events :: "(exn + unit) \<times> task_store \<times> event list \<Rightarrow> event list" where
  "run_events outcome = snd (snd outcome)"

text \<open>
  The request of the spec's end-to-end scenario, the store right after it was accepted,
  and collaborators whose generation and notification answers are given.
\<close>

definition example_request :: Request where
  "example_request =
     \<lparr>req_email = ''a@x.com'', req_secret = ''s1'', req_task = ''alpha'', req_round = 1,
      req_nonce = ''n1'', req_brief = ''todo app'', req_checks = [''must load''],
      req_evaluation_url = ''http://eval/'', req_attachments = []\<rparr>"

definition example_store :: task_store where
  "example_store =
     [''alpha-1'' \<mapsto> \<lparr>tr_request = Request_dict example_request, tr_status = ''processing''\<rparr>]"

definition example_adapters :: "exn + pydict \<Rightarrow> exn + bool \<Rightarrow> adapters" where
  "example_adapters generated notified =
     \<lparr>save_attachments = (\<lambda>atts. []),
      uuid4_hex = ''1234abcd5678ef00'',
      llm_generate_app_code = (\<lambda>brief checks attachments existing_repo. generated),
      github_create_repository =
        (\<lambda>name code description. Inr (''https://github.com/u/'' @ name, ''https://u.github.io/'' @ name)),
      github_update_repository =
        (\<lambda>name code. Inr (''https://github.com/u/r'', ''https://u.github.io/r'')),
      github_get_latest_commit = (\<lambda>name. Inr ''c0ffee''),
      evaluation_submit = (\<lambda>payload evaluation_url. notified)\<rparr>"

text \<open>
  A revision of the example request; the same two requests with another secret; and the
  state after the identity of the example has had a build accepted for another task, so
  that its secret is bound and the task \<open>alpha\<close> has no record.
\<close>

definition example_revision :: RevisionRequest where
  "example_revision = example_request\<lparr>req_round := 2\<rparr>"

definition wrong_secret_request :: BuildRequest where
  "wrong_secret_request = example_request\<lparr>req_secret := ''s2''\<rparr>"

definition wrong_secret_revision :: RevisionRequest where
  "wrong_secret_revision = example_request\<lparr>req_secret := ''s2'', req_round := 2\<rparr>"

definition state_after_beta :: state where
  "state_after_beta = snd (deploy_app (example_request\<lparr>req_task := ''beta''\<rparr>) initial_state)"

text \<open>The state after the example request itself has been accepted on a fresh process.\<close>

definition state_after_alpha :: state where
  "state_after_alpha = snd (deploy_app example_request initial_state)"

text \<open>A payload, and an endpoint that answers every request with status 201 (Created).\<close>

definition example_payload :: EvaluationResponse where
  "example_payload =
     EvaluationResponse ''a@x.com'' ''alpha'' 1 ''n1'' ''https://github.com/u/alpha-1234abcd''
       ''c0ffee'' ''https://u.github.io/alpha-1234abcd''"

definition endpoint_always_201 :: endpoint where
  "endpoint_always_201 attempt evaluation_url body = Response 201"

section \<open>Runs that read the commit id back through get\_latest\_commit\<close>

text \<open>
  The notification calls among the events of a run; a provider that cannot be reached
  (every call ends in a transport error, which is not a \<^verbatim>\<open>GithubException\<close>); a provider
  without the repository; and the example collaborators with the commit read-back of
  the example run done by \<open>get_latest_commit\<close> on a given provider.
\<close>

definition submissions :: "event list \<Rightarrow> event list" where
  "submissions events = filter (\<lambda>e. case e of SubmitEvaluation p u \<Rightarrow> True | _ \<Rightarrow> False) events"

definition unreachable_github :: github where
  "unreachable_github = example_github\<lparr>fault := (\<lambda>call. Some (Exception ''ConnectionError''))\<rparr>"

definition empty_github :: github where
  "empty_github = example_github\<lparr>repos := Map.empty\<rparr>"

definition adapters_reading_commit_from :: "github \<Rightarrow> adapters" where
  "adapters_reading_commit_from gh =
     (example_adapters (Inr [(''index.html'', PStr ''hi'')]) (Inr True))
       \<lparr>github_get_latest_commit := (\<lambda>name. get_latest_commit gh ''alpha-1234abcd'')\<rparr>"

section \<open>What is assumed of the JSON library, and an example of one\<close>

text \<open>
  The only property of \<^verbatim>\<open>json.loads\<close> that the development uses: a text that is empty or
  begins with a brace is parsed to a dictionary or not at all (no other JSON value begins
  with a brace). \<open>example_json\<close> is a library that knows one document.
\<close>

definition json_object_on_brace :: "(string \<Rightarrow> exn + pyval) \<Rightarrow> bool" where
  "json_object_on_brace loads =
     (\<forall>s v. loads s = Inr v \<longrightarrow> (s = [] \<or> hd s = CHR ''{'' \<or> hd s = CHR ''}'') \<longrightarrow>
            (\<exists>kvs. v = PDict kvs))"

definition example_json :: json_lib where
  "example_json =
     \<lparr>json_loads = (\<lambda>s. if s = ''{\"index.html\": \"hi\"}''
                         then Inr (PDict [(''index.html'', PStr ''hi'')])
                         else Inl (Exception ''JSONDecodeError'')),
      json_dumps = (\<lambda>v. ''{}'')\<rparr>"

section \<open>Properties of the secret registry\<close>

lemma verify_secret_keeps_binding:
  "(store :: secret_store) who = Some bound \<Longrightarrow> snd (verify_secret who' supplied store) who = Some bound"
  by (cases "store who'") (auto simp: verify_secret_def)

lemma verify_all_keeps_binding:
  "store who = Some bound \<Longrightarrow> snd (verify_all calls store) who = Some bound"
proof (induction calls arbitrary: store)
  case Nil
  then show ?case by simp
next
  case (Cons c calls)
  obtain e s where c: "c = (e, s)" by (cases c)
  obtain ok store' where v: "verify_secret e s store = (ok, store')"
    by (cases "verify_secret e s store")
  have "store' who = Some bound"
    using verify_secret_keeps_binding [of store who bound e s] Cons.prems v by simp
  with Cons.IH [of store'] show ?case
    by (auto simp: c v split: prod.splits)
qed

text \<open>
  C6. For an identity with no binding, a verify call with any secret returns true and binds
  that secret. For an identity bound to \<open>bound\<close>, a call returns true iff the supplied
  secret equals \<open>bound\<close>, and after any further sequence of verify calls (for any
  identities and secrets) the identity is still bound to \<open>bound\<close>.
\<close>

theorem verify_secret_trust_on_first_use:
  "((store :: secret_store) who = None \<longrightarrow>
      verify_secret who supplied store = (True, store(who \<mapsto> supplied)))
   \<and> (store who = Some bound \<longrightarrow>
      fst (verify_secret who supplied store) = (supplied = bound)
      \<and> snd (verify_secret who supplied store) = store
      \<and> snd (verify_all calls store) who = Some bound)"
  using verify_all_keeps_binding [of store who bound calls]
  by (auto simp: verify_secret_def)

theorem verify_secret_trust_on_first_use_witness:
  "verify_secret ''a@x.com'' ''s1'' Map.empty = (True, [''a@x.com'' \<mapsto> ''s1''])
   \<and> fst (verify_secret ''a@x.com'' ''s2'' [''a@x.com'' \<mapsto> ''s1'']) = False
   \<and> fst (verify_secret ''a@x.com'' ''s1'' [''a@x.com'' \<mapsto> ''s1'']) = True
   \<and> snd (verify_all [(''a@x.com'', ''s2''), (''b@x.com'', ''s3'')] [''a@x.com'' \<mapsto> ''s1''])
        ''a@x.com'' = Some ''s1''"
  using
    verify_secret_trust_on_first_use [of Map.empty "''a@x.com''" "''s1''" "''s1''" "[]"]
    verify_secret_trust_on_first_use [of "[''a@x.com'' \<mapsto> ''s1'']" "''a@x.com''" "''s2''" "''s1''"
      "[(''a@x.com'', ''s2''), (''b@x.com'', ''s3'')]"]
    verify_secret_trust_on_first_use [of "[''a@x.com'' \<mapsto> ''s1'']" "''a@x.com''" "''s1''" "''s1''" "[]"]
  by simp

section \<open>Properties of the delivery notifier\<close>

lemma submit_attempts_all_fail:
  "(\<forall>a \<in> set as. post a u (EvaluationResponse_dict d) \<noteq> Response 200) \<Longrightarrow>
   submit_attempts post d u as = (False, attempt_trace u (EvaluationResponse_dict d) as)"
proof (induction as)
  case Nil
  then show ?case by (simp add: attempt_trace_def)
next
  case (Cons a as)
  then have ih: "submit_attempts post d u as = (False, attempt_trace u (EvaluationResponse_dict d) as)"
    by simp
  from Cons.prems have ne: "post a u (EvaluationResponse_dict d) \<noteq> Response 200"
    by simp
  show ?case
  proof (cases "post a u (EvaluationResponse_dict d)")
    case (Response status)
    with ne have "status \<noteq> 200" by simp
    with Response ih show ?thesis by (simp add: attempt_trace_def Let_def)
  next
    case (PostRaised e)
    with ih show ?thesis by (simp add: attempt_trace_def Let_def)
  qed
qed

lemma submit_attempts_first_success:
  "(\<forall>a \<in> set as. post a u (EvaluationResponse_dict d) \<noteq> Response 200) \<Longrightarrow>
   post k u (EvaluationResponse_dict d) = Response 200 \<Longrightarrow>
   submit_attempts post d u (as @ k # rest) =
     (True, attempt_trace u (EvaluationResponse_dict d) as @ [Post u (EvaluationResponse_dict d)])"
proof (induction as)
  case Nil
  then show ?case by (simp add: attempt_trace_def Let_def)
next
  case (Cons a as)
  then have ih: "submit_attempts post d u (as @ k # rest) =
     (True, attempt_trace u (EvaluationResponse_dict d) as @ [Post u (EvaluationResponse_dict d)])"
    by simp
  from Cons.prems have ne: "post a u (EvaluationResponse_dict d) \<noteq> Response 200"
    by simp
  show ?case
  proof (cases "post a u (EvaluationResponse_dict d)")
    case (Response status)
    with ne have "status \<noteq> 200" by simp
    with Response ih show ?thesis by (simp add: attempt_trace_def Let_def)
  next
    case (PostRaised e)
    with ih show ?thesis by (simp add: attempt_trace_def Let_def)
  qed
qed

lemma submit_attempts_true_iff:
  "fst (submit_attempts post d u as) =
     (\<exists>a \<in> set as. post a u (EvaluationResponse_dict d) = Response 200)"
proof (induction as)
  case Nil
  then show ?case by simp
next
  case (Cons a as)
  obtain r evs where rest: "submit_attempts post d u as = (r, evs)"
    by (cases "submit_attempts post d u as")
  show ?case
  proof (cases "post a u (EvaluationResponse_dict d)")
    case (Response status)
    with Cons rest show ?thesis by (auto simp: Let_def)
  next
    case (PostRaised e)
    with Cons rest show ?thesis by (auto simp: Let_def)
  qed
qed

lemma range_split_at:
  assumes "k < n"
  shows "[0..<n] = [0..<k] @ k # [Suc k..<n]"
proof -
  have "[0..<n] = [0..<k] @ [k..<n]"
    using upt_add_eq_append [of 0 k "n - k"] assms by simp
  also have "[k..<n] = k # [Suc k..<n]"
    using assms by (simp add: upt_conv_Cons)
  finally show ?thesis .
qed

lemma attempt_trace_all_five:
  "attempt_trace u body [0..<max_retries] =
     [Post u body, Sleep 1, Post u body, Sleep 2, Post u body, Sleep 4,
      Post u body, Sleep 8, Post u body]"
  by (simp add: attempt_trace_def max_retries_def backoff_def base_delay_def upt_rec)

text \<open>
  C4. For every payload and URL, if no attempt sees status 200 (each one sees another
  status or an exception), submit\_evaluation returns false after exactly five requests,
  with delays of 1, 2, 4 and 8 seconds between consecutive requests and none after the
  fifth.
\<close>

theorem submit_evaluation_exhausts_after_five:
  assumes "\<forall>attempt < max_retries.
             post attempt evaluation_url (EvaluationResponse_dict eval_data) \<noteq> Response 200"
  shows "submit_evaluation post eval_data evaluation_url =
    (False,
     [Post evaluation_url (EvaluationResponse_dict eval_data), Sleep 1,
      Post evaluation_url (EvaluationResponse_dict eval_data), Sleep 2,
      Post evaluation_url (EvaluationResponse_dict eval_data), Sleep 4,
      Post evaluation_url (EvaluationResponse_dict eval_data), Sleep 8,
      Post evaluation_url (EvaluationResponse_dict eval_data)])"
proof -
  have "\<forall>a \<in> set [0..<max_retries].
          post a evaluation_url (EvaluationResponse_dict eval_data) \<noteq> Response 200"
    using assms by simp
  then have "submit_evaluation post eval_data evaluation_url =
      (False, attempt_trace evaluation_url (EvaluationResponse_dict eval_data) [0..<max_retries])"
    unfolding submit_evaluation_def by (rule submit_attempts_all_fail)
  then show ?thesis by (simp only: attempt_trace_all_five)
qed

theorem submit_evaluation_exhausts_after_five_witness:
  "submit_evaluation
     (\<lambda>attempt u body. if attempt = 2 then PostRaised (Exception ''timeout'') else Response 503)
     example_payload ''http://eval/''
   = (False,
      [Post ''http://eval/'' (EvaluationResponse_dict example_payload), Sleep 1,
       Post ''http://eval/'' (EvaluationResponse_dict example_payload), Sleep 2,
       Post ''http://eval/'' (EvaluationResponse_dict example_payload), Sleep 4,
       Post ''http://eval/'' (EvaluationResponse_dict example_payload), Sleep 8,
       Post ''http://eval/'' (EvaluationResponse_dict example_payload)])"
  by (rule submit_evaluation_exhausts_after_five) simp

text \<open>
  C5, as the code has it. An attempt succeeds iff it sees status 200 exactly:
  submit\_evaluation returns true iff one of the five attempts sees status 200, and if
  attempt \<open>k\<close> (counted from 1, at most 5) is the first to see it, the run returns true
  after exactly \<open>k\<close> requests, with the delays 1, 2, ... between them and nothing after
  the successful request. Every other status, the other 2xx included, is a failed attempt.
\<close>

theorem submit_evaluation_first_status_200:
  assumes "1 \<le> k" and "k \<le> max_retries"
    and "\<forall>j < k - 1. post j evaluation_url (EvaluationResponse_dict eval_data) \<noteq> Response 200"
    and "post (k - 1) evaluation_url (EvaluationResponse_dict eval_data) = Response 200"
  shows "submit_evaluation post eval_data evaluation_url =
           (True,
            concat (map (\<lambda>j. [Post evaluation_url (EvaluationResponse_dict eval_data), Sleep (2 ^ j)])
                        [0..<k - 1])
            @ [Post evaluation_url (EvaluationResponse_dict eval_data)])
         \<and> length (filter (\<lambda>e. e = Post evaluation_url (EvaluationResponse_dict eval_data))
              (snd (submit_evaluation post eval_data evaluation_url))) = k
         \<and> fst (submit_evaluation post' eval_data evaluation_url) =
             (\<exists>a < max_retries.
                post' a evaluation_url (EvaluationResponse_dict eval_data) = Response 200)"
proof -
  let ?body = "EvaluationResponse_dict eval_data"
  let ?sent = "Post evaluation_url ?body"
  have split: "[0..<max_retries] = [0..<k - 1] @ (k - 1) # [Suc (k - 1)..<max_retries]"
    using assms(1,2) by (intro range_split_at) simp
  have fails: "\<forall>a \<in> set [0..<k - 1]. post a evaluation_url ?body \<noteq> Response 200"
    using assms(3) by simp
  have run: "submit_evaluation post eval_data evaluation_url =
      (True, attempt_trace evaluation_url ?body [0..<k - 1] @ [?sent])"
    unfolding submit_evaluation_def split
    using fails assms(4) by (rule submit_attempts_first_success)
  have backoffs: "\<forall>j \<in> set [0..<k - 1]. backoff j = [Sleep (2 ^ j)]"
    using assms(2) by (auto simp: backoff_def max_retries_def base_delay_def)
  have trace: "attempt_trace evaluation_url ?body [0..<k - 1] =
      concat (map (\<lambda>j. [?sent, Sleep (2 ^ j)]) [0..<k - 1])"
    unfolding attempt_trace_def using backoffs
    by (intro arg_cong [where f = concat] map_cong) auto
  have count: "length (filter (\<lambda>e. e = ?sent)
      (concat (map (\<lambda>j. [?sent, Sleep (2 ^ j)]) xs))) = length xs" for xs :: "nat list"
    by (induction xs) auto
  have iff: "fst (submit_evaluation post' eval_data evaluation_url) =
      (\<exists>a < max_retries. post' a evaluation_url ?body = Response 200)"
    unfolding submit_evaluation_def submit_attempts_true_iff by auto
  have run': "submit_evaluation post eval_data evaluation_url =
      (True, concat (map (\<lambda>j. [?sent, Sleep (2 ^ j)]) [0..<k - 1]) @ [?sent])"
    using run trace by simp
  have len: "length (filter (\<lambda>e. e = ?sent)
      (snd (submit_evaluation post eval_data evaluation_url))) = k"
    unfolding run' using assms(1) by (simp add: count)
  show ?thesis
    by (intro conjI run' len iff)
qed

theorem submit_evaluation_first_status_200_witness:
  "submit_evaluation (\<lambda>attempt u body. if attempt = 2 then Response 200 else Response 500)
     example_payload ''http://eval/''
   = (True,
      [Post ''http://eval/'' (EvaluationResponse_dict example_payload), Sleep 1,
       Post ''http://eval/'' (EvaluationResponse_dict example_payload), Sleep 2,
       Post ''http://eval/'' (EvaluationResponse_dict example_payload)])"
  using submit_evaluation_first_status_200 [of 3
      "\<lambda>attempt u body. if attempt = 2 then Response 200 else Response 500"
      "''http://eval/''" example_payload]
  by (simp add: max_retries_def upt_rec)

text \<open>
  As the spec words it, C5 fails on the other statuses of the success class: an
  endpoint that answers 201 on every attempt is posted to five times and the run
  returns false.
\<close>

theorem submit_evaluation_status_201_counterexample:
  "http_success_status 201
   \<and> endpoint_always_201 0 ''http://eval/'' (EvaluationResponse_dict example_payload) = Response 201
   \<and> submit_evaluation endpoint_always_201 example_payload ''http://eval/''
     = (False,
        [Post ''http://eval/'' (EvaluationResponse_dict example_payload), Sleep 1,
         Post ''http://eval/'' (EvaluationResponse_dict example_payload), Sleep 2,
         Post ''http://eval/'' (EvaluationResponse_dict example_payload), Sleep 4,
         Post ''http://eval/'' (EvaluationResponse_dict example_payload), Sleep 8,
         Post ''http://eval/'' (EvaluationResponse_dict example_payload)])"
  by (simp add: http_success_status_def submit_evaluation_def max_retries_def upt_rec
      backoff_def base_delay_def endpoint_always_201_def Let_def)

section \<open>Properties of the request handlers\<close>

lemma str_int_1: "str_int 1 = ''1''"
  by (simp add: str_int_def str_nat.simps digit_char_def)

lemma str_int_2: "str_int 2 = ''2''"
  by (simp add: str_int_def str_nat.simps digit_char_def)

text \<open>
  Whatever the body of a handler raises is caught by the handler's own
  \<^verbatim>\<open>except Exception\<close> clause and raised again with status 500, so a handler answers
  200 or 500 and nothing else.
\<close>

lemma handler_statuses:
  "http_status (fst (deploy_app request s)) \<in> {200, 500}"
  "http_status (fst (revise_app request s)) \<in> {200, 500}"
  by (auto simp: deploy_app_def deploy_app_try_def revise_app_def revise_app_try_def Let_def
      split: prod.splits sum.splits if_splits)

text \<open>
  C1. The spec has the build handler answer 401 when the secret check fails and the
  revision handler answer 404 when the task has no round-1 record, and keeps 500 for
  unexpected errors. Evaluated on the code: for a build request from an identity bound to
  another secret the body of the handler raises its 401 exception and the handler answers
  with status 500; for a revision request for a task with no round-1 record the body
  raises its 404 exception and the handler answers with status 500.
\<close>

theorem dispatcher_refusals_surface_as_500:
  "SECRET_STORE state_after_beta ''a@x.com'' = Some ''s1''
   \<and> fst (deploy_app_try wrong_secret_request state_after_beta)
       = Inl (HTTPException 401 ''Invalid secret'')
   \<and> http_status (fst (deploy_app wrong_secret_request state_after_beta)) = 500
   \<and> task_store initial_state ''alpha-1'' = None
   \<and> fst (revise_app_try example_revision initial_state)
       = Inl (HTTPException 404 ''Original task not found'')
   \<and> http_status (fst (revise_app example_revision initial_state)) = 500"
  by (simp add: deploy_app_def deploy_app_try_def revise_app_def revise_app_try_def
      verify_secret_def example_request_def initial_state_def state_after_beta_def
      wrong_secret_request_def example_revision_def Let_def)

text \<open>
  C7, as the code has it. For a revision request whose secret check passes, the body of
  the handler raises its not-found error iff the store has no record for the round-1 task
  id, and the request is accepted iff the store has one, with the accepted answer and the
  scheduled revision run. For a revision request whose secret check fails, the body raises
  its invalid-secret error and the request is not accepted, whether or not the store has
  the round-1 record. In either case, replacing the status of the round-1 record by any
  other value leaves the answer of the body and of the handler unchanged.
\<close>

theorem revise_app_not_found_iff_no_round1_record:
  "(fst (verify_secret (req_email request) (req_secret request) (SECRET_STORE s)) \<longrightarrow>
      (fst (revise_app_try request s) = Inl (HTTPException 404 ''Original task not found''))
        = (task_store s (req_task request @ ''-1'') = None)
      \<and> (\<exists>response. fst (revise_app request s) = Inr response)
        = (task_store s (req_task request @ ''-1'') \<noteq> None)
      \<and> (task_store s (req_task request @ ''-1'') \<noteq> None \<longrightarrow>
           fst (revise_app request s)
             = Inr (JSONResponse 200
                      [(''status'', ''accepted''),
                       (''task_id'', task_id_of (req_task request) (req_round request))],
                    RevisionJob request)))
   \<and> (\<not> fst (verify_secret (req_email request) (req_secret request) (SECRET_STORE s)) \<longrightarrow>
      fst (revise_app_try request s) = Inl (HTTPException 401 ''Invalid secret'')
      \<and> fst (revise_app_try request s) \<noteq> Inl (HTTPException 404 ''Original task not found'')
      \<and> (\<forall>response. fst (revise_app request s) \<noteq> Inr response))
   \<and> (\<forall>r v. task_store s (req_task request @ ''-1'') = Some r \<longrightarrow>
         fst (revise_app_try request
                (s\<lparr>task_store := (task_store s)(req_task request @ ''-1'' \<mapsto> r\<lparr>tr_status := v\<rparr>)\<rparr>))
           = fst (revise_app_try request s)
         \<and> fst (revise_app request
                (s\<lparr>task_store := (task_store s)(req_task request @ ''-1'' \<mapsto> r\<lparr>tr_status := v\<rparr>)\<rparr>))
           = fst (revise_app request s))"
proof -
  obtain verified secrets
    where v: "verify_secret (req_email request) (req_secret request) (SECRET_STORE s)
                = (verified, secrets)"
    by (cases "verify_secret (req_email request) (req_secret request) (SECRET_STORE s)")
  show ?thesis
  proof (cases verified)
    case True
    with v show ?thesis
      by (cases "task_store s (req_task request @ ''-1'')")
        (simp_all add: revise_app_def revise_app_try_def Let_def)
  next
    case False
    with v show ?thesis
      by (simp add: revise_app_def revise_app_try_def Let_def)
  qed
qed

theorem revise_app_not_found_iff_no_round1_record_witness:
  "task_store state_after_beta (req_task example_revision @ ''-1'') = None
   \<and> fst (revise_app_try example_revision state_after_beta)
       = Inl (HTTPException 404 ''Original task not found'')
   \<and> task_store state_after_alpha (req_task example_revision @ ''-1'')
       = Some \<lparr>tr_request = Request_dict example_request, tr_status = ''processing''\<rparr>
   \<and> fst (revise_app example_revision state_after_alpha)
       = Inr (JSONResponse 200 [(''status'', ''accepted''), (''task_id'', ''alpha-2'')],
              RevisionJob example_revision)
   \<and> fst (revise_app example_revision
          (state_after_alpha\<lparr>task_store := (task_store state_after_alpha)
             (req_task example_revision @ ''-1'' \<mapsto>
                \<lparr>tr_request = Request_dict example_request, tr_status = ''processing''\<rparr>
                  \<lparr>tr_status := ''failed''\<rparr>)\<rparr>))
       = fst (revise_app example_revision state_after_alpha)
   \<and> fst (revise_app_try wrong_secret_revision state_after_alpha)
       = Inl (HTTPException 401 ''Invalid secret'')
   \<and> fst (revise_app_try wrong_secret_revision state_after_beta)
       = Inl (HTTPException 401 ''Invalid secret'')"
proof -
  have alpha: "state_after_alpha =
      \<lparr>SECRET_STORE = [''a@x.com'' \<mapsto> ''s1''], task_store = example_store\<rparr>"
    by (simp add: state_after_alpha_def deploy_app_def deploy_app_try_def verify_secret_def
        initial_state_def example_request_def example_store_def task_id_of_def str_int_1 Let_def)
  have beta_secret: "SECRET_STORE state_after_beta = [''a@x.com'' \<mapsto> ''s1'']"
    and beta_none: "task_store state_after_beta ''alpha-1'' = None"
    by (simp_all add: state_after_beta_def deploy_app_def deploy_app_try_def verify_secret_def
        initial_state_def example_request_def task_id_of_def str_int_1 Let_def)
  have rev: "req_email example_revision = ''a@x.com''" "req_secret example_revision = ''s1''"
      "req_task example_revision = ''alpha''" "req_round example_revision = 2"
    and wrong: "req_email wrong_secret_revision = ''a@x.com''"
      "req_secret wrong_secret_revision = ''s2''" "req_task wrong_secret_revision = ''alpha''"
    by (simp_all add: example_revision_def wrong_secret_revision_def example_request_def)
  have k: "task_id_of ''alpha'' 2 = ''alpha-2''"
    by (simp add: task_id_of_def str_int_2)
  have passes: "fst (verify_secret ''a@x.com'' ''s1'' [''a@x.com'' \<mapsto> ''s1''])"
    and mismatch: "\<not> fst (verify_secret ''a@x.com'' ''s2'' [''a@x.com'' \<mapsto> ''s1''])"
    by (simp_all add: verify_secret_def)
  have stored: "example_store ''alpha-1''
      = Some \<lparr>tr_request = Request_dict example_request, tr_status = ''processing''\<rparr>"
    by (simp add: example_store_def)
  have not_found: "fst (revise_app_try example_revision state_after_beta)
       = Inl (HTTPException 404 ''Original task not found'')"
    using revise_app_not_found_iff_no_round1_record [of example_revision state_after_beta]
    by (simp add: rev beta_secret beta_none passes)
  have accepted: "fst (revise_app example_revision state_after_alpha)
       = Inr (JSONResponse 200 [(''status'', ''accepted''), (''task_id'', ''alpha-2'')],
              RevisionJob example_revision)"
    using revise_app_not_found_iff_no_round1_record [of example_revision state_after_alpha]
    by (simp add: rev alpha passes stored k)
  have same: "fst (revise_app example_revision
          (state_after_alpha\<lparr>task_store := (task_store state_after_alpha)
             (req_task example_revision @ ''-1'' \<mapsto>
                \<lparr>tr_request = Request_dict example_request, tr_status = ''processing''\<rparr>
                  \<lparr>tr_status := ''failed''\<rparr>)\<rparr>))
       = fst (revise_app example_revision state_after_alpha)"
    using revise_app_not_found_iff_no_round1_record [of example_revision state_after_alpha]
    by (simp add: rev alpha stored)
  have refused_with_record: "fst (revise_app_try wrong_secret_revision state_after_alpha)
       = Inl (HTTPException 401 ''Invalid secret'')"
    using revise_app_not_found_iff_no_round1_record [of wrong_secret_revision state_after_alpha]
    by (simp add: wrong alpha mismatch)
  have refused_without: "fst (revise_app_try wrong_secret_revision state_after_beta)
       = Inl (HTTPException 401 ''Invalid secret'')"
    using revise_app_not_found_iff_no_round1_record [of wrong_secret_revision state_after_beta]
    by (simp add: wrong beta_secret mismatch)
  show ?thesis
    using not_found accepted same refused_with_record refused_without
    by (simp add: rev beta_none alpha stored)
qed

text \<open>
  As the spec states it, C7 fails where the secret check fails: the store has no round-1
  record, and the request is refused for its secret, not as not found.
\<close>

theorem revise_app_bad_secret_counterexample:
  "task_store state_after_beta (req_task wrong_secret_revision @ ''-1'') = None
   \<and> fst (revise_app_try wrong_secret_revision state_after_beta)
       = Inl (HTTPException 401 ''Invalid secret'')
   \<and> fst (revise_app wrong_secret_revision state_after_beta)
       \<noteq> Inl (HTTPException 404 ''Original task not found'')"
  by (simp add: deploy_app_def deploy_app_try_def revise_app_def revise_app_try_def
      verify_secret_def example_request_def initial_state_def state_after_beta_def
      wrong_secret_revision_def task_id_of_def str_int_1 Let_def)

section \<open>Properties of the build pipeline\<close>

lemma build_generation_raises:
  assumes "ts (task_id_of (req_task request) (req_round request)) = Some r"
    and "generation_result ad request = Inl e"
  shows "process_build_request ad request ts =
    (Inr (), ts(task_id_of (req_task request) (req_round request) \<mapsto> r\<lparr>tr_status := ''failed''\<rparr>),
     [Generate (req_brief request) (req_checks request) (save_attachments ad (req_attachments request)) PNone,
      SetStatus (task_id_of (req_task request) (req_round request)) ''failed''])"
  using assms
  by (simp add: process_build_request_def process_build_request_try_def on_pipeline_exception_def
      generation_result_def set_status_def Let_def)

lemma build_publication_raises:
  assumes "ts (task_id_of (req_task request) (req_round request)) = Some r"
    and "generation_result ad request = Inr code"
    and "publication_result ad request code = Inl e"
  shows "process_build_request ad request ts =
    (Inr (), ts(task_id_of (req_task request) (req_round request) \<mapsto> r\<lparr>tr_status := ''failed''\<rparr>),
     [Generate (req_brief request) (req_checks request) (save_attachments ad (req_attachments request)) PNone,
      CreateRepository (build_repo_name ad request) code (build_description request),
      SetStatus (task_id_of (req_task request) (req_round request)) ''failed''])"
  using assms
  by (simp add: process_build_request_def process_build_request_try_def on_pipeline_exception_def
      generation_result_def publication_result_def set_status_def Let_def)

lemma build_commit_raises:
  assumes "ts (task_id_of (req_task request) (req_round request)) = Some r"
    and "generation_result ad request = Inr code"
    and "publication_result ad request code = Inr (repo_url, pages_url)"
    and "commit_result ad request = Inl e"
  shows "process_build_request ad request ts =
    (Inr (), ts(task_id_of (req_task request) (req_round request) \<mapsto> r\<lparr>tr_status := ''failed''\<rparr>),
     [Generate (req_brief request) (req_checks request) (save_attachments ad (req_attachments request)) PNone,
      CreateRepository (build_repo_name ad request) code (build_description request),
      GetLatestCommit (PStr (build_repo_name ad request)),
      SetStatus (task_id_of (req_task request) (req_round request)) ''failed''])"
  using assms
  by (simp add: process_build_request_def process_build_request_try_def on_pipeline_exception_def
      notify_and_record_def
      generation_result_def publication_result_def commit_result_def set_status_def Let_def)

lemma build_notifier_raises:
  assumes "ts (task_id_of (req_task request) (req_round request)) = Some r"
    and "generation_result ad request = Inr code"
    and "publication_result ad request code = Inr (repo_url, pages_url)"
    and "commit_result ad request = Inr commit_sha"
    and "notifier_result ad request repo_url commit_sha pages_url = Inl e"
  shows "process_build_request ad request ts =
    (Inr (), ts(task_id_of (req_task request) (req_round request) \<mapsto> r\<lparr>tr_status := ''failed''\<rparr>),
     [Generate (req_brief request) (req_checks request) (save_attachments ad (req_attachments request)) PNone,
      CreateRepository (build_repo_name ad request) code (build_description request),
      GetLatestCommit (PStr (build_repo_name ad request)),
      SubmitEvaluation (evaluation_payload request repo_url commit_sha pages_url) (req_evaluation_url request),
      SetStatus (task_id_of (req_task request) (req_round request)) ''failed''])"
  using assms
  by (simp add: process_build_request_def process_build_request_try_def on_pipeline_exception_def
      notify_and_record_def notifier_result_def
      generation_result_def publication_result_def commit_result_def set_status_def Let_def)

lemma build_notifier_returns:
  assumes "ts (task_id_of (req_task request) (req_round request)) = Some r"
    and "generation_result ad request = Inr code"
    and "publication_result ad request code = Inr (repo_url, pages_url)"
    and "commit_result ad request = Inr commit_sha"
    and "notifier_result ad request repo_url commit_sha pages_url = Inr success"
  shows "process_build_request ad request ts =
    (Inr (), ts(task_id_of (req_task request) (req_round request) \<mapsto>
        r\<lparr>tr_status := (if success then ''completed'' else ''evaluation_failed'')\<rparr>),
     [Generate (req_brief request) (req_checks request) (save_attachments ad (req_attachments request)) PNone,
      CreateRepository (build_repo_name ad request) code (build_description request),
      GetLatestCommit (PStr (build_repo_name ad request)),
      SubmitEvaluation (evaluation_payload request repo_url commit_sha pages_url) (req_evaluation_url request),
      SetStatus (task_id_of (req_task request) (req_round request))
        (if success then ''completed'' else ''evaluation_failed'')])"
  using assms
  by (simp add: process_build_request_def process_build_request_try_def on_pipeline_exception_def
      notify_and_record_def notifier_result_def
      generation_result_def publication_result_def commit_result_def set_status_def Let_def)

text \<open>
  C3. For a build run whose task record exists (the handler stored it when it accepted
  the request): the run ends normally and writes exactly one status, a terminal one, to
  that record. If generation raises, the status is \<open>failed\<close> and no publication call is
  made. If generation, publication and the commit read-back return and the notifier
  returns false, the status is \<open>evaluation_failed\<close>; if it returns true, \<open>completed\<close>. An
  exception from publication, from the commit read-back or from the notifier gives
  \<open>failed\<close>.
\<close>

theorem process_build_request_terminal_status:
  assumes "ts (task_id_of (req_task request) (req_round request)) = Some r"
  shows
   "fst (process_build_request ad request ts) = Inr ()
    \<and> (\<exists>v \<in> {''completed'', ''evaluation_failed'', ''failed''}.
         status_writes (run_events (process_build_request ad request ts))
           = [(task_id_of (req_task request) (req_round request), v)]
         \<and> fst (snd (process_build_request ad request ts))
           = ts(task_id_of (req_task request) (req_round request) \<mapsto> r\<lparr>tr_status := v\<rparr>))
    \<and> ((\<exists>e. generation_result ad request = Inl e) \<longrightarrow>
         final_status (process_build_request ad request ts)
           (task_id_of (req_task request) (req_round request)) = Some ''failed''
         \<and> publication_calls (run_events (process_build_request ad request ts)) = [])
    \<and> (\<forall>code repo_url pages_url commit_sha.
         generation_result ad request = Inr code
         \<and> publication_result ad request code = Inr (repo_url, pages_url)
         \<and> commit_result ad request = Inr commit_sha \<longrightarrow>
           (notifier_result ad request repo_url commit_sha pages_url = Inr False \<longrightarrow>
              final_status (process_build_request ad request ts)
                (task_id_of (req_task request) (req_round request)) = Some ''evaluation_failed'')
         \<and> (notifier_result ad request repo_url commit_sha pages_url = Inr True \<longrightarrow>
              final_status (process_build_request ad request ts)
                (task_id_of (req_task request) (req_round request)) = Some ''completed'')
         \<and> ((\<exists>e. notifier_result ad request repo_url commit_sha pages_url = Inl e) \<longrightarrow>
              final_status (process_build_request ad request ts)
                (task_id_of (req_task request) (req_round request)) = Some ''failed''))
    \<and> (\<forall>code. generation_result ad request = Inr code
         \<and> ((\<exists>e. publication_result ad request code = Inl e)
              \<or> (\<exists>e. commit_result ad request = Inl e)) \<longrightarrow>
           final_status (process_build_request ad request ts)
             (task_id_of (req_task request) (req_round request)) = Some ''failed'')"
proof -
  consider
      (generation) e where "generation_result ad request = Inl e"
    | (publication) code e where "generation_result ad request = Inr code"
        "publication_result ad request code = Inl e"
    | (commit) code repo_url pages_url e where "generation_result ad request = Inr code"
        "publication_result ad request code = Inr (repo_url, pages_url)"
        "commit_result ad request = Inl e"
    | (notifier) code repo_url pages_url commit_sha e where "generation_result ad request = Inr code"
        "publication_result ad request code = Inr (repo_url, pages_url)"
        "commit_result ad request = Inr commit_sha"
        "notifier_result ad request repo_url commit_sha pages_url = Inl e"
    | (notified) code repo_url pages_url commit_sha success where "generation_result ad request = Inr code"
        "publication_result ad request code = Inr (repo_url, pages_url)"
        "commit_result ad request = Inr commit_sha"
        "notifier_result ad request repo_url commit_sha pages_url = Inr success"
  proof (cases "generation_result ad request")
    case (Inl e)
    then show ?thesis by (rule generation)
  next
    case gen: (Inr code)
    show ?thesis
    proof (cases "publication_result ad request code")
      case (Inl e)
      with gen show ?thesis by (rule publication)
    next
      case (Inr urls)
      then obtain repo_url pages_url
        where pub: "publication_result ad request code = Inr (repo_url, pages_url)"
        by (cases urls) simp
      show ?thesis
      proof (cases "commit_result ad request")
        case (Inl e)
        with gen pub show ?thesis by (rule commit)
      next
        case com: (Inr commit_sha)
        show ?thesis
        proof (cases "notifier_result ad request repo_url commit_sha pages_url")
          case (Inl e)
          with gen pub com show ?thesis by (rule notifier)
        next
          case (Inr success)
          with gen pub com show ?thesis by (rule notified)
        qed
      qed
    qed
  qed
  then show ?thesis
  proof cases
    case generation
    from build_generation_raises [where ts = ts, OF assms generation] generation
    show ?thesis by (simp add: final_status_def run_events_def)
  next
    case publication
    from build_publication_raises [where ts = ts, OF assms publication] publication
    show ?thesis by (simp add: final_status_def run_events_def)
  next
    case commit
    from build_commit_raises [where ts = ts, OF assms commit] commit
    show ?thesis by (simp add: final_status_def run_events_def)
  next
    case notifier
    from build_notifier_raises [where ts = ts, OF assms notifier] notifier
    show ?thesis by (simp add: final_status_def run_events_def)
  next
    case notified
    from build_notifier_returns [where ts = ts, OF assms notified] notified
    show ?thesis by (simp add: final_status_def run_events_def)
  qed
qed

theorem process_build_request_terminal_status_witness:
  "final_status (process_build_request (example_adapters (Inl (Exception ''out of memory'')) (Inr True))
       example_request example_store) ''alpha-1'' = Some ''failed''
   \<and> publication_calls (run_events (process_build_request
         (example_adapters (Inl (Exception ''out of memory'')) (Inr True))
         example_request example_store)) = []
   \<and> final_status (process_build_request (example_adapters (Inr [(''index.html'', PStr ''hi'')]) (Inr False))
       example_request example_store) ''alpha-1'' = Some ''evaluation_failed''
   \<and> final_status (process_build_request (example_adapters (Inr [(''index.html'', PStr ''hi'')]) (Inr True))
       example_request example_store) ''alpha-1'' = Some ''completed''
   \<and> status_writes (run_events (process_build_request
         (example_adapters (Inr [(''index.html'', PStr ''hi'')]) (Inr True))
         example_request example_store)) = [(''alpha-1'', ''completed'')]"
proof -
  have k: "task_id_of (req_task example_request) (req_round example_request) = ''alpha-1''"
    by (simp add: task_id_of_def example_request_def str_int_1)
  have present: "example_store (task_id_of (req_task example_request) (req_round example_request))
      = Some \<lparr>tr_request = Request_dict example_request, tr_status = ''processing''\<rparr>"
    by (simp add: k example_store_def)
  note run = process_build_request_terminal_status
    [where ts = example_store and request = example_request, OF present]
  have g1: "generation_result (example_adapters (Inl (Exception ''out of memory'')) (Inr True))
      example_request = Inl (Exception ''out of memory'')"
    by (simp add: generation_result_def example_adapters_def)
  have g2: "generation_result (example_adapters (Inr [(''index.html'', PStr ''hi'')]) n)
      example_request = Inr [(''index.html'', PStr ''hi'')]" for n
    by (simp add: generation_result_def example_adapters_def)
  have p2: "publication_result (example_adapters g n) example_request code =
      Inr (''https://github.com/u/alpha-1234abcd'', ''https://u.github.io/alpha-1234abcd'')" for g n code
    by (simp add: publication_result_def example_adapters_def build_repo_name_def example_request_def)
  have c2: "commit_result (example_adapters g n) example_request = Inr ''c0ffee''" for g n
    by (simp add: commit_result_def example_adapters_def)
  have n2: "notifier_result (example_adapters g n) example_request ru sha pu = n" for g n ru sha pu
    by (simp add: notifier_result_def example_adapters_def)
  show ?thesis
    using run [of "example_adapters (Inl (Exception ''out of memory'')) (Inr True)"]
      run [of "example_adapters (Inr [(''index.html'', PStr ''hi'')]) (Inr False)"]
      run [of "example_adapters (Inr [(''index.html'', PStr ''hi'')]) (Inr True)"]
    by (auto simp: k g1 g2 p2 c2 n2 final_status_def)
qed

section \<open>Properties of the revision pipeline\<close>

lemma same_requests_refl: "same_requests ts ts"
  by (simp add: same_requests_def)

lemma same_requests_trans:
  "same_requests ts ts' \<Longrightarrow> same_requests ts' ts'' \<Longrightarrow> same_requests ts ts''"
  by (simp add: same_requests_def)

lemma set_status_same_requests:
  "set_status k v ts = Inr ts' \<Longrightarrow> same_requests ts ts'"
  by (auto simp: set_status_def same_requests_def split: option.splits)

lemma notify_and_record_same_requests:
  "same_requests ts (fst (snd (notify_and_record ad request repo_name repo_url pages_url ts ev)))"
  by (auto simp: notify_and_record_def Let_def same_requests_refl
      split: sum.splits dest: set_status_same_requests)

lemma process_build_request_try_same_requests:
  "same_requests ts (fst (snd (process_build_request_try ad request ts)))"
  by (auto simp: process_build_request_try_def Let_def same_requests_refl
      notify_and_record_same_requests split: sum.splits)

lemma process_revision_request_try_same_requests:
  "same_requests ts (fst (snd (process_revision_request_try ad request ts)))"
  by (auto simp: process_revision_request_try_def Let_def same_requests_refl
      notify_and_record_same_requests split: sum.splits option.splits)

lemma on_pipeline_exception_same_requests:
  "same_requests ts (fst (snd outcome)) \<Longrightarrow>
   same_requests ts (fst (snd (on_pipeline_exception request outcome)))"
proof -
  obtain res ts1 ev where outcome: "outcome = (res, ts1, ev)"
    by (cases outcome)
  assume same: "same_requests ts (fst (snd outcome))"
  show ?thesis
  proof (cases res)
    case (Inr u)
    with outcome same show ?thesis by (simp add: on_pipeline_exception_def)
  next
    case (Inl e)
    show ?thesis
    proof (cases "set_status (task_id_of (req_task request) (req_round request)) ''failed'' ts1")
      case failed: (Inl e')
      with Inl outcome same show ?thesis by (simp add: on_pipeline_exception_def)
    next
      case written: (Inr ts2)
      from same outcome have "same_requests ts ts1" by simp
      with set_status_same_requests [OF written] have "same_requests ts ts2"
        by (blast intro: same_requests_trans)
      with Inl outcome written show ?thesis by (simp add: on_pipeline_exception_def)
    qed
  qed
qed

lemma process_build_request_same_requests:
  "same_requests ts (fst (snd (process_build_request ad request ts)))"
  unfolding process_build_request_def
  by (rule on_pipeline_exception_same_requests) (rule process_build_request_try_same_requests)

lemma process_revision_request_same_requests:
  "same_requests ts (fst (snd (process_revision_request ad request ts)))"
  unfolding process_revision_request_def
  by (rule on_pipeline_exception_same_requests) (rule process_revision_request_try_same_requests)

lemma same_requests_no_repo_name:
  "same_requests ts ts' \<Longrightarrow> no_repo_name ts \<Longrightarrow> no_repo_name ts'"
proof -
  assume same: "same_requests ts ts'" and inv: "no_repo_name ts"
  have "map_of (tr_request r') ''repo_name'' = None" if "ts' k = Some r'" for k r'
  proof -
    from same have "map_option tr_request (ts' k) = map_option tr_request (ts k)"
      by (simp add: same_requests_def)
    with that obtain r where "ts k = Some r" and "tr_request r = tr_request r'"
      by (cases "ts k") auto
    with inv show ?thesis unfolding no_repo_name_def by metis
  qed
  then show ?thesis by (simp add: no_repo_name_def)
qed

lemma same_requests_dom: "same_requests ts ts' \<Longrightarrow> dom ts' = dom ts"
proof -
  assume same: "same_requests ts ts'"
  have "(ts' k = None) = (ts k = None)" for k
  proof -
    from same have "map_option tr_request (ts' k) = map_option tr_request (ts k)"
      by (simp add: same_requests_def)
    then show ?thesis by (cases "ts k"; cases "ts' k") simp_all
  qed
  then show ?thesis by (auto simp: dom_def)
qed

lemma Request_dict_no_repo_name: "map_of (Request_dict request) ''repo_name'' = None"
  by (simp add: Request_dict_def)

lemma deploy_app_no_repo_name:
  "no_repo_name (task_store s) \<Longrightarrow> no_repo_name (task_store (snd (deploy_app request s)))"
  by (auto simp: deploy_app_def deploy_app_try_def Let_def no_repo_name_def
      Request_dict_no_repo_name split: prod.splits if_splits)

lemma revise_app_no_repo_name:
  "no_repo_name (task_store s) \<Longrightarrow> no_repo_name (task_store (snd (revise_app request s)))"
  by (auto simp: revise_app_def revise_app_try_def Let_def no_repo_name_def
      Request_dict_no_repo_name split: prod.splits if_splits)

lemma deploy_app_dom:
  "dom (task_store s) \<subseteq> dom (task_store (snd (deploy_app request s)))"
  by (auto simp: deploy_app_def deploy_app_try_def Let_def split: prod.splits if_splits)

lemma revise_app_dom:
  "dom (task_store s) \<subseteq> dom (task_store (snd (revise_app request s)))"
  by (auto simp: revise_app_def revise_app_try_def Let_def split: prod.splits if_splits)

lemma step_no_repo_name:
  "step s s' \<Longrightarrow> no_repo_name (task_store s) \<Longrightarrow> no_repo_name (task_store s')"
proof (induction rule: step.induct)
  case (deploy request s)
  then show ?case by (simp add: deploy_app_no_repo_name)
next
  case (revise request s)
  then show ?case by (simp add: revise_app_no_repo_name)
next
  case (build_run s ad request)
  then show ?case
    using same_requests_no_repo_name [OF process_build_request_same_requests] by simp
next
  case (revision_run s ad request)
  then show ?case
    using same_requests_no_repo_name [OF process_revision_request_same_requests] by simp
qed

lemma step_dom: "step s s' \<Longrightarrow> dom (task_store s) \<subseteq> dom (task_store s')"
proof (induction rule: step.induct)
  case (deploy request s)
  show ?case by (rule deploy_app_dom)
next
  case (revise request s)
  show ?case by (rule revise_app_dom)
next
  case (build_run s ad request)
  then show ?case
    using same_requests_dom [OF process_build_request_same_requests] by simp
next
  case (revision_run s ad request)
  then show ?case
    using same_requests_dom [OF process_revision_request_same_requests] by simp
qed

lemma steps_no_repo_name:
  "steps s s' \<Longrightarrow> no_repo_name (task_store s) \<Longrightarrow> no_repo_name (task_store s')"
  by (induction rule: steps.induct) (auto dest: step_no_repo_name)

lemma steps_dom: "steps s s' \<Longrightarrow> dom (task_store s) \<subseteq> dom (task_store s')"
  by (induction rule: steps.induct) (blast dest: step_dom)+

lemma reachable_no_repo_name: "reachable s \<Longrightarrow> no_repo_name (task_store s)"
  unfolding reachable_def
  by (drule steps_no_repo_name) (simp_all add: initial_state_def no_repo_name_def)

lemma revise_app_accepted:
  assumes "fst (revise_app request s) = Inr response"
  shows "req_task request @ ''-1'' \<in> dom (task_store (snd (revise_app request s)))"
    and "task_id_of (req_task request) (req_round request) \<in> dom (task_store (snd (revise_app request s)))"
  using assms
  by (auto simp: revise_app_def revise_app_try_def Let_def split: prod.splits if_splits)

lemma revision_run_without_repo_name:
  assumes "ts (req_task request @ ''-1'') = Some round1"
    and "map_of (tr_request round1) ''repo_name'' = None"
    and "ts (task_id_of (req_task request) (req_round request)) = Some r"
  shows "process_revision_request ad request ts =
    (Inr (), ts(task_id_of (req_task request) (req_round request) \<mapsto> r\<lparr>tr_status := ''failed''\<rparr>),
     [SetStatus (task_id_of (req_task request) (req_round request)) ''failed''])"
  using assms
  by (simp add: process_revision_request_def process_revision_request_try_def
      on_pipeline_exception_def set_status_def dict_get_def Let_def)

text \<open>
  C2. In any state the service can reach, once a revision request has been accepted, and
  after whatever the service does next: the record of the round-1 task id exists and its
  stored request has no repository name, so a revision run for that request, with any
  collaborators, calls none of them (its only event is the status write) and leaves the
  status \<open>failed\<close> on the revision's record.
\<close>

theorem revision_run_always_fails:
  assumes "reachable s"
    and "fst (revise_app request s) = Inr response"
    and "steps (snd (revise_app request s)) s'"
  shows "\<exists>round1 r.
       task_store s' (req_task request @ ''-1'') = Some round1
     \<and> dict_get (tr_request round1) ''repo_name'' = PNone
     \<and> task_store s' (task_id_of (req_task request) (req_round request)) = Some r
     \<and> process_revision_request ad request (task_store s') =
         (Inr (),
          (task_store s')(task_id_of (req_task request) (req_round request)
             \<mapsto> r\<lparr>tr_status := ''failed''\<rparr>),
          [SetStatus (task_id_of (req_task request) (req_round request)) ''failed''])"
proof -
  have "no_repo_name (task_store (snd (revise_app request s)))"
    using assms(1) by (intro revise_app_no_repo_name reachable_no_repo_name)
  with assms(3) have inv: "no_repo_name (task_store s')"
    by (rule steps_no_repo_name)
  from revise_app_accepted [OF assms(2)] steps_dom [OF assms(3)]
  obtain round1 r where round1: "task_store s' (req_task request @ ''-1'') = Some round1"
    and r: "task_store s' (task_id_of (req_task request) (req_round request)) = Some r"
    by blast
  from inv round1 have none: "map_of (tr_request round1) ''repo_name'' = None"
    by (simp add: no_repo_name_def)
  from revision_run_without_repo_name [where ts = "task_store s'", OF round1 none r] round1 r none
  show ?thesis by (simp add: dict_get_def)
qed

theorem revision_run_always_fails_witness:
  "process_revision_request (example_adapters (Inr [(''index.html'', PStr ''hi'')]) (Inr True))
     (example_request\<lparr>req_round := 2\<rparr>)
     (task_store (snd (revise_app (example_request\<lparr>req_round := 2\<rparr>)
        (snd (deploy_app example_request initial_state)))))
   = (Inr (),
      [''alpha-1'' \<mapsto> \<lparr>tr_request = Request_dict example_request, tr_status = ''processing''\<rparr>,
       ''alpha-2'' \<mapsto> \<lparr>tr_request = Request_dict (example_request\<lparr>req_round := 2\<rparr>),
                        tr_status = ''failed''\<rparr>],
      [SetStatus ''alpha-2'' ''failed''])"
proof -
  let ?s = "snd (deploy_app example_request initial_state)"
  let ?rev = "example_request\<lparr>req_round := 2\<rparr>"
  have valid: "BuildRequest_valid example_request"
    by (simp add: BuildRequest_valid_def example_request_def)
  have "steps initial_state ?s"
    by (rule steps.next_step [OF steps.no_step step.deploy [OF valid]])
  then have reach: "reachable ?s" by (simp add: reachable_def)
  have s: "?s = \<lparr>SECRET_STORE = [''a@x.com'' \<mapsto> ''s1''], task_store = example_store\<rparr>"
    by (simp add: deploy_app_def deploy_app_try_def verify_secret_def initial_state_def
        example_request_def example_store_def task_id_of_def str_int_1 Let_def)
  have s1: "snd (revise_app ?rev ?s) =
      \<lparr>SECRET_STORE = [''a@x.com'' \<mapsto> ''s1''],
       task_store = example_store(''alpha-2'' \<mapsto>
         \<lparr>tr_request = Request_dict ?rev, tr_status = ''processing''\<rparr>)\<rparr>"
    unfolding s
    by (simp add: revise_app_def revise_app_try_def verify_secret_def
        example_request_def example_store_def task_id_of_def str_int_2 Let_def)
  have accepted: "fst (revise_app ?rev ?s) =
      Inr (JSONResponse 200 [(''status'', ''accepted''), (''task_id'', ''alpha-2'')], RevisionJob ?rev)"
    unfolding s
    by (simp add: revise_app_def revise_app_try_def verify_secret_def
        example_request_def example_store_def task_id_of_def str_int_2 Let_def)
  have k: "task_id_of (req_task ?rev) (req_round ?rev) = ''alpha-2''"
    by (simp add: task_id_of_def example_request_def str_int_2)
  from revision_run_always_fails [OF reach accepted steps.no_step,
        of "example_adapters (Inr [(''index.html'', PStr ''hi'')]) (Inr True)"]
  obtain r where r: "task_store (snd (revise_app ?rev ?s)) ''alpha-2'' = Some r"
    and run: "process_revision_request
        (example_adapters (Inr [(''index.html'', PStr ''hi'')]) (Inr True)) ?rev
        (task_store (snd (revise_app ?rev ?s))) =
      (Inr (), (task_store (snd (revise_app ?rev ?s)))(''alpha-2'' \<mapsto> r\<lparr>tr_status := ''failed''\<rparr>),
       [SetStatus ''alpha-2'' ''failed''])"
    unfolding k by blast
  from r have "r = \<lparr>tr_request = Request_dict ?rev, tr_status = ''processing''\<rparr>"
    unfolding s1 by simp
  with run show ?thesis
    unfolding s1 by (simp add: example_store_def)
qed

section \<open>Properties of update\_repository\<close>

lemma gh_update_file_frame:
  "gh_update_file gh full_name path message content sha = Inr gh' \<Longrightarrow>
   p \<noteq> path \<Longrightarrow> repo_files gh' full_name p = repo_files gh full_name p"
  by (auto simp: gh_update_file_def repo_files_def split: option.splits if_splits)

lemma gh_create_file_frame:
  "gh_create_file gh full_name path message content = Inr gh' \<Longrightarrow>
   p \<noteq> path \<Longrightarrow> repo_files gh' full_name p = repo_files gh full_name p"
  by (auto simp: gh_create_file_def repo_files_def split: option.splits if_splits)

lemma upsert_file_frame:
  "upsert_file gh full_name filename content = (Inr gh', calls) \<Longrightarrow>
   p \<noteq> filename \<Longrightarrow> repo_files gh' full_name p = repo_files gh full_name p"
  by (auto simp: upsert_file_def Let_def split: sum.splits
      dest: gh_update_file_frame gh_create_file_frame)

lemma update_files_frame:
  "p \<notin> fst ` set code \<Longrightarrow>
   repo_files (fst (snd (update_files gh full_name code))) full_name p = repo_files gh full_name p"
proof (induction code arbitrary: gh)
  case Nil
  then show ?case by simp
next
  case (Cons fc code)
  obtain filename content where fc: "fc = (filename, content)" by (cases fc)
  with Cons.prems have ne: "p \<noteq> filename" and rest: "p \<notin> fst ` set code" by auto
  obtain res calls where up: "upsert_file gh full_name filename content = (res, calls)"
    by (cases "upsert_file gh full_name filename content")
  show ?case
  proof (cases res)
    case (Inl e)
    with up fc show ?thesis by simp
  next
    case (Inr gh')
    with up ne have "repo_files gh' full_name p = repo_files gh full_name p"
      by (auto dest: upsert_file_frame)
    with Cons.IH [OF rest, of gh'] Inr up fc show ?thesis
      by (auto split: prod.splits)
  qed
qed

lemma update_repository_frame:
  "p \<notin> fst ` set code \<Longrightarrow>
   repo_files (fst (snd (update_repository gh name code))) (login gh @ ''/'' @ name) p
     = repo_files gh (login gh @ ''/'' @ name) p"
  using update_files_frame [of p code gh "login gh @ ''/'' @ name"]
  by (auto simp: update_repository_def Let_def split: sum.splits prod.splits)

lemma upsert_file_no_fault:
  assumes "\<forall>call. fault gh call = None" and "repos gh full_name = Some files"
  shows "upsert_file gh full_name filename content =
    (Inr (gh\<lparr>repos := (repos gh)(full_name \<mapsto> files(filename \<mapsto> content))\<rparr>),
     upsert_calls gh full_name files (filename, content))"
  using assms
  by (cases "files filename")
    (simp_all add: upsert_file_def gh_get_contents_def gh_update_file_def gh_create_file_def
      upsert_calls_def Let_def)

lemma update_files_no_fault:
  assumes "\<forall>call. fault gh call = None" and "repos gh full_name = Some files"
    and "distinct (map fst code)"
  shows "update_files gh full_name code =
    (Inr (), gh\<lparr>repos := (repos gh)(full_name \<mapsto> files ++ map_of code)\<rparr>,
     concat (map (upsert_calls gh full_name files) code))"
  using assms
proof (induction code arbitrary: gh files)
  case Nil
  then have "(repos gh)(full_name \<mapsto> files) = repos gh"
    by (intro fun_upd_idem) simp
  then show ?case by simp
next
  case (Cons fc code)
  obtain filename content where fc: "fc = (filename, content)" by (cases fc)
  let ?gh' = "gh\<lparr>repos := (repos gh)(full_name \<mapsto> files(filename \<mapsto> content))\<rparr>"
  from Cons.prems fc have fresh: "filename \<notin> fst ` set code" and dist: "distinct (map fst code)"
    by auto
  have up: "upsert_file gh full_name filename content =
      (Inr ?gh', upsert_calls gh full_name files (filename, content))"
    using Cons.prems(1,2) by (rule upsert_file_no_fault)
  have nf: "\<forall>call. fault ?gh' call = None" using Cons.prems(1) by simp
  have rp: "repos ?gh' full_name = Some (files(filename \<mapsto> content))" by simp
  have rest: "update_files ?gh' full_name code =
      (Inr (), ?gh'\<lparr>repos := (repos ?gh')(full_name \<mapsto> files(filename \<mapsto> content) ++ map_of code)\<rparr>,
       concat (map (upsert_calls ?gh' full_name (files(filename \<mapsto> content))) code))"
    using nf rp dist by (rule Cons.IH)
  have calls: "map (upsert_calls ?gh' full_name (files(filename \<mapsto> content))) code
      = map (upsert_calls gh full_name files) code"
  proof (rule map_cong [OF refl])
    fix fc' assume "fc' \<in> set code"
    with fresh have "fst fc' \<noteq> filename" by auto
    then show "upsert_calls ?gh' full_name (files(filename \<mapsto> content)) fc'
        = upsert_calls gh full_name files fc'"
      by (cases fc') (simp add: upsert_calls_def split: option.splits)
  qed
  have none: "map_of code filename = None"
    using fresh by (simp add: map_of_eq_None_iff)
  have files: "files(filename \<mapsto> content) ++ map_of code = files ++ map_of ((filename, content) # code)"
    using none by (simp add: map_add_upd_left domIff)
  have state: "?gh'\<lparr>repos := (repos ?gh')(full_name \<mapsto> m)\<rparr>
      = gh\<lparr>repos := (repos gh)(full_name \<mapsto> m)\<rparr>" for m
    by simp
  have run: "update_files gh full_name ((filename, content) # code) =
      (Inr (), ?gh'\<lparr>repos := (repos ?gh')(full_name \<mapsto> files(filename \<mapsto> content) ++ map_of code)\<rparr>,
       upsert_calls gh full_name files (filename, content)
         @ concat (map (upsert_calls gh full_name files) code))"
    by (simp only: update_files.simps up rest calls prod.case sum.case)
  have cat: "concat (map (upsert_calls gh full_name files) ((filename, content) # code))
      = upsert_calls gh full_name files (filename, content)
          @ concat (map (upsert_calls gh full_name files) code)"
    by simp
  show ?case
    unfolding fc run state files cat ..
qed

text \<open>
  C8. For every generated file set (a dictionary, so its filenames are distinct) and
  repository: whatever the provider answers, no path outside the generated set is
  changed or removed by update\_repository. When the
  repository exists and no provider call fails, the call returns the two URLs, each
  generated filename is read and then updated if the repository had it and created
  otherwise, and afterwards the repository holds the generated content under each
  generated filename and its previous content under every other path.
\<close>

theorem update_repository_upserts:
  "(\<forall>path. path \<notin> fst ` set code \<longrightarrow>
      repo_files (fst (snd (update_repository gh name code))) (login gh @ ''/'' @ name) path
        = repo_files gh (login gh @ ''/'' @ name) path)
   \<and> (distinct (map fst code) \<and> (\<forall>call. fault gh call = None)
        \<and> repos gh (login gh @ ''/'' @ name) = Some files \<longrightarrow>
      update_repository gh name code =
        (Inr (html_url (login gh @ ''/'' @ name), ''https://'' @ login gh @ ''.github.io/'' @ name),
         gh\<lparr>repos := (repos gh)(login gh @ ''/'' @ name \<mapsto> files ++ map_of code)\<rparr>,
         GetRepo (login gh @ ''/'' @ name) #
           concat (map (\<lambda>(filename, content).
             [GetContents (login gh @ ''/'' @ name) filename,
              (case files filename of
                 Some current \<Rightarrow> UpdateFile (login gh @ ''/'' @ name) filename
                     (''Update '' @ filename) content (sha_of gh current)
               | None \<Rightarrow> CreateFile (login gh @ ''/'' @ name) filename
                     (''Add '' @ filename) content)]) code)))"
proof (intro conjI allI impI)
  fix path assume "path \<notin> fst ` set code"
  then show "repo_files (fst (snd (update_repository gh name code))) (login gh @ ''/'' @ name) path
        = repo_files gh (login gh @ ''/'' @ name) path"
    by (rule update_repository_frame)
next
  let ?full = "login gh @ ''/'' @ name"
  assume a: "distinct (map fst code) \<and> (\<forall>call. fault gh call = None)
        \<and> repos gh ?full = Some files"
  then have run: "update_files gh ?full code =
    (Inr (), gh\<lparr>repos := (repos gh)(?full \<mapsto> files ++ map_of code)\<rparr>,
     concat (map (upsert_calls gh ?full files) code))"
    by (intro update_files_no_fault) simp_all
  have calls: "upsert_calls gh ?full files = (\<lambda>(filename, content).
             [GetContents ?full filename,
              (case files filename of
                 Some current \<Rightarrow> UpdateFile ?full filename
                     (''Update '' @ filename) content (sha_of gh current)
               | None \<Rightarrow> CreateFile ?full filename (''Add '' @ filename) content)])"
    by (auto simp: upsert_calls_def fun_eq_iff split: option.splits)
  from a have repo: "gh_get_repo gh ?full = Inr ()"
    by (simp add: gh_get_repo_def)
  show "update_repository gh name code =
        (Inr (html_url ?full, ''https://'' @ login gh @ ''.github.io/'' @ name),
         gh\<lparr>repos := (repos gh)(?full \<mapsto> files ++ map_of code)\<rparr>,
         GetRepo ?full #
           concat (map (\<lambda>(filename, content).
             [GetContents ?full filename,
              (case files filename of
                 Some current \<Rightarrow> UpdateFile ?full filename
                     (''Update '' @ filename) content (sha_of gh current)
               | None \<Rightarrow> CreateFile ?full filename (''Add '' @ filename) content)]) code))"
    unfolding update_repository_def Let_def repo run calls by simp
qed

theorem update_repository_upserts_witness:
  "fst (update_repository example_github ''alpha-1234abcd''
     [(''index.html'', ''new page''), (''script.js'', ''run()'')])
     = Inr (''https://github.com/u/alpha-1234abcd'', ''https://u.github.io/alpha-1234abcd'')
   \<and> snd (snd (update_repository example_github ''alpha-1234abcd''
     [(''index.html'', ''new page''), (''script.js'', ''run()'')]))
     = [GetRepo ''u/alpha-1234abcd'',
        GetContents ''u/alpha-1234abcd'' ''index.html'',
        UpdateFile ''u/alpha-1234abcd'' ''index.html'' ''Update index.html'' ''new page'' ''sha:old page'',
        GetContents ''u/alpha-1234abcd'' ''script.js'',
        CreateFile ''u/alpha-1234abcd'' ''script.js'' ''Add script.js'' ''run()'']
   \<and> repo_files (fst (snd (update_repository example_github ''alpha-1234abcd''
         [(''index.html'', ''new page''), (''script.js'', ''run()'')]))) ''u/alpha-1234abcd'' ''index.html''
       = Some ''new page''
   \<and> repo_files (fst (snd (update_repository example_github ''alpha-1234abcd''
         [(''index.html'', ''new page''), (''script.js'', ''run()'')]))) ''u/alpha-1234abcd'' ''script.js''
       = Some ''run()''
   \<and> repo_files (fst (snd (update_repository example_github ''alpha-1234abcd''
         [(''index.html'', ''new page''), (''script.js'', ''run()'')]))) ''u/alpha-1234abcd'' ''notes.txt''
       = Some ''round 1''"
proof -
  let ?code = "[(''index.html'', ''new page''), (''script.js'', ''run()'')]"
  let ?files = "[''index.html'' \<mapsto> ''old page'', ''notes.txt'' \<mapsto> ''round 1'']"
  note upserts = update_repository_upserts [of ?code example_github "''alpha-1234abcd''" ?files]
  have full: "login example_github @ ''/'' @ ''alpha-1234abcd'' = ''u/alpha-1234abcd''"
    by (simp add: example_github_def)
  have pre: "distinct (map fst ?code) \<and> (\<forall>call. fault example_github call = None)
      \<and> repos example_github (login example_github @ ''/'' @ ''alpha-1234abcd'') = Some ?files"
    by (simp add: example_github_def)
  have sha: "sha_of example_github c = ''sha:'' @ c" for c
    by (simp add: example_github_def)
  have lg: "login example_github = ''u''"
    by (simp add: example_github_def)
  from upserts pre have run: "update_repository example_github ''alpha-1234abcd'' ?code =
      (Inr (html_url ''u/alpha-1234abcd'', ''https://'' @ ''u'' @ ''.github.io/'' @ ''alpha-1234abcd''),
       example_github\<lparr>repos := (repos example_github)(''u/alpha-1234abcd'' \<mapsto> ?files ++ map_of ?code)\<rparr>,
       [GetRepo ''u/alpha-1234abcd'',
        GetContents ''u/alpha-1234abcd'' ''index.html'',
        UpdateFile ''u/alpha-1234abcd'' ''index.html'' ''Update index.html'' ''new page'' ''sha:old page'',
        GetContents ''u/alpha-1234abcd'' ''script.js'',
        CreateFile ''u/alpha-1234abcd'' ''script.js'' ''Add script.js'' ''run()''])"
    unfolding full by (simp add: sha lg)
  show ?thesis
    unfolding run by (simp add: html_url_def repo_files_def)
qed

section \<open>Properties of get\_latest\_commit\<close>

lemma get_latest_commit_cases:
  "commit_lookup gh repo_name = Inr sha \<Longrightarrow> get_latest_commit gh repo_name = Inr sha"
  "commit_lookup gh repo_name = Inl (GithubException m) \<Longrightarrow>
     get_latest_commit gh repo_name = Inr ''unknown''"
  "commit_lookup gh repo_name = Inl e \<Longrightarrow> \<forall>m. e \<noteq> GithubException m \<Longrightarrow>
     get_latest_commit gh repo_name = Inl e"
  by (auto simp: get_latest_commit_def split: exn.splits)

lemma example_run_facts:
  "build_repo_name (adapters_reading_commit_from gh) example_request = ''alpha-1234abcd''"
  "github_get_latest_commit (adapters_reading_commit_from gh)
      (PStr (build_repo_name (adapters_reading_commit_from gh) example_request))
    = get_latest_commit gh (build_repo_name (adapters_reading_commit_from gh) example_request)"
  "example_store (task_id_of (req_task example_request) (req_round example_request))
    = Some \<lparr>tr_request = Request_dict example_request, tr_status = ''processing''\<rparr>"
  "generation_result (adapters_reading_commit_from gh) example_request = Inr [(''index.html'', PStr ''hi'')]"
  "publication_result (adapters_reading_commit_from gh) example_request code
    = Inr (''https://github.com/u/alpha-1234abcd'', ''https://u.github.io/alpha-1234abcd'')"
  "notifier_result (adapters_reading_commit_from gh) example_request ru sha pu = Inr True"
  "task_id_of (req_task example_request) (req_round example_request) = ''alpha-1''"
  by (simp_all add: adapters_reading_commit_from_def example_adapters_def build_repo_name_def
      example_request_def example_store_def task_id_of_def str_int_1 generation_result_def
      publication_result_def notifier_result_def)

text \<open>
  C9, as the code has it. Take a build run whose commit read-back is get\_latest\_commit,
  whose task record exists and whose generation and publication returned. If the provider
  lookup fails with a \<^verbatim>\<open>GithubException\<close>, get\_latest\_commit returns \<open>unknown\<close>, the run
  notifies once, with \<open>unknown\<close> as commit id, and the status is the one the notifier
  decides. If the lookup fails with an exception of another class, get\_latest\_commit
  raises it, the run notifies nobody and the status is \<open>failed\<close>.
\<close>

theorem get_latest_commit_absorbs_provider_errors:
  assumes wired: "github_get_latest_commit ad (PStr (build_repo_name ad request))
                    = get_latest_commit gh (build_repo_name ad request)"
    and present: "ts (task_id_of (req_task request) (req_round request)) = Some r"
    and generated: "generation_result ad request = Inr code"
    and published: "publication_result ad request code = Inr (repo_url, pages_url)"
  shows
   "(commit_lookup gh (build_repo_name ad request) = Inl (GithubException m) \<longrightarrow>
       get_latest_commit gh (build_repo_name ad request) = Inr ''unknown''
       \<and> submissions (run_events (process_build_request ad request ts))
           = [SubmitEvaluation (evaluation_payload request repo_url ''unknown'' pages_url)
                (req_evaluation_url request)]
       \<and> final_status (process_build_request ad request ts)
             (task_id_of (req_task request) (req_round request))
           = Some (case notifier_result ad request repo_url ''unknown'' pages_url of
                     Inr True \<Rightarrow> ''completed''
                   | Inr False \<Rightarrow> ''evaluation_failed''
                   | Inl e \<Rightarrow> ''failed''))
    \<and> (commit_lookup gh (build_repo_name ad request) = Inl e \<and> (\<forall>m'. e \<noteq> GithubException m') \<longrightarrow>
       get_latest_commit gh (build_repo_name ad request) = Inl e
       \<and> submissions (run_events (process_build_request ad request ts)) = []
       \<and> final_status (process_build_request ad request ts)
             (task_id_of (req_task request) (req_round request)) = Some ''failed'')"
proof (intro conjI impI)
  assume lookup: "commit_lookup gh (build_repo_name ad request) = Inl (GithubException m)"
  then show sentinel: "get_latest_commit gh (build_repo_name ad request) = Inr ''unknown''"
    by (rule get_latest_commit_cases)
  with wired have commit: "commit_result ad request = Inr ''unknown''"
    by (simp add: commit_result_def)
  show "submissions (run_events (process_build_request ad request ts))
           = [SubmitEvaluation (evaluation_payload request repo_url ''unknown'' pages_url)
                (req_evaluation_url request)]"
  proof (cases "notifier_result ad request repo_url ''unknown'' pages_url")
    case (Inl e')
    from build_notifier_raises [where ts = ts, OF present generated published commit Inl]
    show ?thesis by (simp add: run_events_def submissions_def)
  next
    case (Inr success)
    from build_notifier_returns [where ts = ts, OF present generated published commit Inr]
    show ?thesis by (simp add: run_events_def submissions_def)
  qed
  show "final_status (process_build_request ad request ts)
             (task_id_of (req_task request) (req_round request))
           = Some (case notifier_result ad request repo_url ''unknown'' pages_url of
                     Inr True \<Rightarrow> ''completed''
                   | Inr False \<Rightarrow> ''evaluation_failed''
                   | Inl e \<Rightarrow> ''failed'')"
  proof (cases "notifier_result ad request repo_url ''unknown'' pages_url")
    case (Inl e')
    from build_notifier_raises [where ts = ts, OF present generated published commit Inl] Inl
    show ?thesis by (simp add: final_status_def)
  next
    case (Inr success)
    from build_notifier_returns [where ts = ts, OF present generated published commit Inr] Inr
    show ?thesis by (simp add: final_status_def)
  qed
next
  assume other: "commit_lookup gh (build_repo_name ad request) = Inl e \<and> (\<forall>m'. e \<noteq> GithubException m')"
  then show raised: "get_latest_commit gh (build_repo_name ad request) = Inl e"
    by (intro get_latest_commit_cases) simp_all
  with wired have commit: "commit_result ad request = Inl e"
    by (simp add: commit_result_def)
  note run = build_commit_raises [where ts = ts, OF present generated published commit]
  from run show "submissions (run_events (process_build_request ad request ts)) = []"
    by (simp add: run_events_def submissions_def)
  from run show "final_status (process_build_request ad request ts)
             (task_id_of (req_task request) (req_round request)) = Some ''failed''"
    by (simp add: final_status_def)
qed

theorem get_latest_commit_absorbs_provider_errors_witness:
  "get_latest_commit empty_github ''alpha-1234abcd'' = Inr ''unknown''
   \<and> final_status (process_build_request (adapters_reading_commit_from empty_github)
         example_request example_store) ''alpha-1'' = Some ''completed''
   \<and> get_latest_commit unreachable_github ''alpha-1234abcd'' = Inl (Exception ''ConnectionError'')
   \<and> final_status (process_build_request (adapters_reading_commit_from unreachable_github)
         example_request example_store) ''alpha-1'' = Some ''failed''"
proof -
  have missing: "commit_lookup empty_github ''alpha-1234abcd'' = Inl (GithubException ''404 Not Found'')"
    by (simp add: commit_lookup_def gh_get_repo_def empty_github_def example_github_def)
  have down: "commit_lookup unreachable_github ''alpha-1234abcd'' = Inl (Exception ''ConnectionError'')"
    by (simp add: commit_lookup_def gh_get_repo_def unreachable_github_def example_github_def)
  show ?thesis
    using get_latest_commit_absorbs_provider_errors
        [where gh = empty_github and ad = "adapters_reading_commit_from empty_github"
           and request = example_request and ts = example_store
           and m = "''404 Not Found''" and e = "Exception ''ConnectionError''",
         OF example_run_facts(2) example_run_facts(3) example_run_facts(4) example_run_facts(5)]
      get_latest_commit_absorbs_provider_errors
        [where gh = unreachable_github and ad = "adapters_reading_commit_from unreachable_github"
           and request = example_request and ts = example_store
           and m = "''404 Not Found''" and e = "Exception ''ConnectionError''",
         OF example_run_facts(2) example_run_facts(3) example_run_facts(4) example_run_facts(5)]
    by (simp add: example_run_facts missing down)
qed

text \<open>
  As the spec states it, C9 fails for a lookup that ends in a transport error: the sentinel is
  not returned and the run is aborted before notification.
\<close>

theorem get_latest_commit_connection_error_counterexample:
  "commit_lookup unreachable_github ''alpha-1234abcd'' = Inl (Exception ''ConnectionError'')
   \<and> get_latest_commit unreachable_github ''alpha-1234abcd'' \<noteq> Inr ''unknown''
   \<and> get_latest_commit unreachable_github ''alpha-1234abcd'' = Inl (Exception ''ConnectionError'')
   \<and> process_build_request (adapters_reading_commit_from unreachable_github) example_request example_store
     = (Inr (),
        [''alpha-1'' \<mapsto> \<lparr>tr_request = Request_dict example_request, tr_status = ''failed''\<rparr>],
        [Generate ''todo app'' [''must load''] [] PNone,
         CreateRepository ''alpha-1234abcd'' [(''index.html'', PStr ''hi'')] ''Generated app for: todo app...'',
         GetLatestCommit (PStr ''alpha-1234abcd''),
         SetStatus ''alpha-1'' ''failed''])"
  by (simp add: commit_lookup_def get_latest_commit_def gh_get_repo_def unreachable_github_def
      example_github_def adapters_reading_commit_from_def example_adapters_def
      process_build_request_def process_build_request_try_def notify_and_record_def
      on_pipeline_exception_def set_status_def build_repo_name_def build_description_def
      example_request_def example_store_def task_id_of_def str_int_1 Let_def)

section \<open>Properties of generate\_app\_code\<close>

text \<open>
  The text handed to the parser is empty, begins with the first opening brace of the
  generated text, or is a single closing brace.
\<close>

lemma slice_from_open_brace:
  assumes "c \<in> set text"
  shows "py_slice text (py_find text c) stop = [] \<or> hd (py_slice text (py_find text c) stop) = c"
proof -
  let ?k = "length (takeWhile (\<lambda>x. x \<noteq> c) text)"
  have "dropWhile (\<lambda>x. x \<noteq> c) text \<noteq> []"
    using assms by auto
  then have "hd (drop ?k text) = c" and "drop ?k text \<noteq> []"
    using hd_dropWhile [of "\<lambda>x. x \<noteq> c" "text"] by (simp_all flip: dropWhile_eq_drop)
  then have hd: "take m (drop ?k text) = [] \<or> hd (take m (drop ?k text)) = c" for m
    by (cases m; cases "drop ?k text") simp_all
  have le: "?k \<le> length text"
    by (rule length_takeWhile_le)
  have eq: "py_slice text (py_find text c) stop
      = take (nat ((if stop < 0 then max 0 (int (length text) + stop) else min stop (int (length text)))
                   - int ?k)) (drop ?k text)"
    using assms le by (simp add: py_slice_def py_find_def Let_def min_def)
  show ?thesis unfolding eq by (rule hd)
qed

lemma slice_without_open_brace:
  assumes "c \<notin> set text"
  shows "py_slice text (py_find text c) (py_rfind text d + 1) = []
         \<or> py_slice text (py_find text c) (py_rfind text d + 1) = [d]"
proof (cases "d \<in> set text")
  case False
  with assms show ?thesis
    by (simp add: py_slice_def py_find_def py_rfind_def Let_def)
next
  case True
  then have ne: "text \<noteq> []" by auto
  let ?j = "length (takeWhile (\<lambda>x. x \<noteq> d) (rev text))"
  let ?n = "length text"
  have n: "0 < ?n" using ne by simp
  have jle: "?j \<le> ?n"
    using length_takeWhile_le [of "\<lambda>x. x \<noteq> d" "rev text"] by simp
  have slice: "py_slice text (py_find text c) (py_rfind text d + 1)
      = take (nat (1 - int ?j)) (drop (?n - 1) text)"
    using assms True n jle
    by (simp add: py_slice_def py_find_def py_rfind_def Let_def min_def max_def nat_diff_distrib
        algebra_simps Suc_le_eq)
  show ?thesis
  proof (cases "?j = 0")
    case False
    then have "nat (1 - int ?j) = 0" by linarith
    with slice show ?thesis by simp
  next
    case True
    then have "takeWhile (\<lambda>x. x \<noteq> d) (rev text) = []" by simp
    with ne have "hd (rev text) = d"
      by (simp add: takeWhile_eq_Nil_iff)
    then have last: "last text = d" by (simp add: hd_rev)
    have "drop (length (butlast text)) (butlast text @ [last text]) = [last text]"
      by simp
    with ne have "drop (?n - 1) text = [last text]"
      by simp
    with slice True last show ?thesis by simp
  qed
qed

lemma json_str_of_shape:
  "json_str_of text = [] \<or> hd (json_str_of text) = CHR ''{'' \<or> hd (json_str_of text) = CHR ''}''"
proof (cases "CHR ''{'' \<in> set text")
  case True
  from slice_from_open_brace [OF True, of "py_rfind text (CHR ''}'') + 1"]
  show ?thesis by (auto simp: json_str_of_def Let_def)
next
  case False
  from slice_without_open_brace [OF False, of "CHR ''}''"]
  show ?thesis by (auto simp: json_str_of_def Let_def)
qed

lemma ensure_required_dict:
  "\<exists>kvs'. ensure_required brief (PDict kvs) fs = Inr (PDict kvs')
          \<and> fst ` set kvs' = fst ` set kvs \<union> set fs"
proof (induction fs arbitrary: kvs)
  case Nil
  then show ?case by simp
next
  case (Cons f fs)
  show ?case
  proof (cases "f \<in> fst ` set kvs")
    case True
    then have "fst ` set kvs \<union> set (f # fs) = fst ` set kvs \<union> set fs" by auto
    with Cons.IH [of kvs] True show ?thesis by simp
  next
    case False
    with Cons.IH [of "AList.update f (PStr (get_template_file f brief)) kvs"]
    show ?thesis by (auto simp: dom_update)
  qed
qed

lemma ensure_required_template:
  "ensure_required brief (PDict (generate_template_code_dict brief)) required_files
     = Inr (PDict (generate_template_code_dict brief))"
  by (simp add: generate_template_code_dict_def required_files_def)

lemma template_keys:
  "fst ` set (generate_template_code_dict brief) = set required_files"
  by (auto simp: generate_template_code_dict_def required_files_def)

lemma parse_generated_code_dict:
  assumes "json_object_on_brace (json_loads json)"
  shows "\<exists>kvs. parse_generated_code json generated_text brief = Inr (PDict kvs)
           \<and> set required_files \<subseteq> fst ` set kvs"
proof -
  have "\<exists>kvs. (case generated_text of
               PStr text \<Rightarrow>
                (case json_loads json (json_str_of text) of
                   Inl e \<Rightarrow> PDict (generate_template_code_dict brief)
                 | Inr parsed \<Rightarrow> parsed)
             | other \<Rightarrow> PDict (generate_template_code_dict brief)) = PDict kvs"
  proof (cases generated_text)
    case (PStr s)
    show ?thesis
    proof (cases "json_loads json (json_str_of s)")
      case (Inl e)
      with PStr show ?thesis by simp
    next
      case (Inr parsed)
      with assms json_str_of_shape [of s] obtain kvs where "parsed = PDict kvs"
        unfolding json_object_on_brace_def by blast
      with PStr Inr show ?thesis by simp
    qed
  qed simp_all
  then obtain kvs where "parse_generated_code json generated_text brief
      = ensure_required brief (PDict kvs) required_files"
    by (auto simp: parse_generated_code_def)
  with ensure_required_dict [of brief kvs required_files] show ?thesis by auto
qed

lemma parse_generated_code_fallback:
  assumes "\<forall>text. generated_text = PStr text \<longrightarrow> (\<exists>e. json_loads json (json_str_of text) = Inl e)"
  shows "parse_generated_code json generated_text brief = Inr (PDict (generate_template_code_dict brief))"
  using assms
  by (cases generated_text) (auto simp: parse_generated_code_def ensure_required_template)

text \<open>
  C10. For every brief, list of checks, list of attachments and existing-repository hint
  (of their annotated types), every generator and every JSON library with the property
  above: generate\_app\_code returns, never raises, and what it returns is a dictionary
  with entries for README.md, index.html, style.css, script.js and LICENSE. When the
  generator raises, when no text can be taken from its result, or when the text taken
  does not parse, the result is the template dictionary.
\<close>

theorem generate_app_code_total:
  assumes "json_object_on_brace (json_loads json)"
  shows
   "(\<exists>code_files.
       generate_app_code json self brief checks attachments existing_repo = Inr (PDict code_files)
       \<and> {''README.md'', ''index.html'', ''style.css'', ''script.js'', ''LICENSE''}
            \<subseteq> fst ` set code_files)
    \<and> (\<forall>generate e.
         generator self = Some generate
         \<and> generate (build_prompt brief checks attachments existing_repo) = Inl e \<longrightarrow>
           generate_app_code json self brief checks attachments existing_repo
             = Inr (PDict (generate_template_code_dict brief)))
    \<and> (\<forall>e. generated_text_of json self (build_prompt brief checks attachments existing_repo)
               brief checks = Inl e \<longrightarrow>
           generate_app_code json self brief checks attachments existing_repo
             = Inr (PDict (generate_template_code_dict brief)))
    \<and> (\<forall>s e. generated_text_of json self (build_prompt brief checks attachments existing_repo)
               brief checks = Inr (PStr s)
             \<and> json_loads json (json_str_of s) = Inl e \<longrightarrow>
           generate_app_code json self brief checks attachments existing_repo
             = Inr (PDict (generate_template_code_dict brief)))"
proof -
  let ?prompt = "build_prompt brief checks attachments existing_repo"
  let ?run = "generate_app_code json self brief checks attachments existing_repo"
  let ?template = "Inr (PDict (generate_template_code_dict brief)) :: exn + pyval"
  have raised: "?run = ?template"
    if "generated_text_of json self ?prompt brief checks = Inl e" for e
    using that by (simp add: generate_app_code_def generate_fallback_code_def)
  have unparsed: "?run = ?template"
    if "generated_text_of json self ?prompt brief checks = Inr (PStr s)"
      and "json_loads json (json_str_of s) = Inl e" for s e
    using that parse_generated_code_fallback [of "PStr s" json brief]
    by (simp add: generate_app_code_def)
  have generator_raised: "?run = ?template"
    if "generator self = Some generate" and "generate ?prompt = Inl e" for generate e
    using that by (intro raised [of e]) (simp add: generated_text_of_def)
  have total: "\<exists>code_files. ?run = Inr (PDict code_files)
       \<and> {''README.md'', ''index.html'', ''style.css'', ''script.js'', ''LICENSE''}
            \<subseteq> fst ` set code_files"
  proof (cases "generated_text_of json self ?prompt brief checks")
    case (Inl e)
    then have "?run = ?template" by (rule raised)
    then show ?thesis
      using template_keys [of brief] by (simp add: required_files_def)
  next
    case (Inr generated_text)
    from parse_generated_code_dict [OF assms, of generated_text brief]
    obtain kvs where "parse_generated_code json generated_text brief = Inr (PDict kvs)"
      and "set required_files \<subseteq> fst ` set kvs"
      by blast
    with Inr show ?thesis
      by (simp add: generate_app_code_def required_files_def)
  qed
  show ?thesis
  proof (intro conjI allI impI)
    show "\<exists>code_files. ?run = Inr (PDict code_files)
       \<and> {''README.md'', ''index.html'', ''style.css'', ''script.js'', ''LICENSE''}
            \<subseteq> fst ` set code_files"
      by (rule total)
  next
    fix generate e
    assume "generator self = Some generate \<and> generate ?prompt = Inl e"
    then show "?run = ?template"
      using generator_raised [of generate e] by simp
  next
    fix e
    assume "generated_text_of json self ?prompt brief checks = Inl e"
    then show "?run = ?template" by (rule raised)
  next
    fix s e
    assume "generated_text_of json self ?prompt brief checks = Inr (PStr s)
             \<and> json_loads json (json_str_of s) = Inl e"
    then show "?run = ?template"
      using unparsed [of s e] by simp
  qed
qed

theorem generate_app_code_total_witness:
  "generate_app_code example_json
       \<lparr>generator = Some (\<lambda>prompt. Inr (PList [PDict [(''generated_text'',
                         PStr ''Sure: {\"index.html\": \"hi\"} done'')]]))\<rparr>
       ''todo app'' [''must load''] None None
     = Inr (PDict [(''index.html'', PStr ''hi''),
                   (''README.md'', PStr (get_template_file ''README.md'' ''todo app'')),
                   (''style.css'', PStr (get_template_file ''style.css'' ''todo app'')),
                   (''script.js'', PStr (get_template_file ''script.js'' ''todo app'')),
                   (''LICENSE'', PStr (get_template_file ''LICENSE'' ''todo app''))])
   \<and> generate_app_code example_json
       \<lparr>generator = Some (\<lambda>prompt. Inl (Exception ''CUDA out of memory''))\<rparr>
       ''todo app'' [''must load''] None None
     = Inr (PDict (generate_template_code_dict ''todo app''))"
proof -
  have ok: "json_object_on_brace (json_loads example_json)"
    by (simp add: json_object_on_brace_def example_json_def)
  have slice: "json_str_of ''Sure: {\"index.html\": \"hi\"} done'' = ''{\"index.html\": \"hi\"}''"
    by (simp add: json_str_of_def py_find_def py_rfind_def py_slice_def Let_def)
  have first: "generate_app_code example_json
       \<lparr>generator = Some (\<lambda>prompt. Inr (PList [PDict [(''generated_text'',
                         PStr ''Sure: {\"index.html\": \"hi\"} done'')]]))\<rparr>
       ''todo app'' [''must load''] None None
     = Inr (PDict [(''index.html'', PStr ''hi''),
                   (''README.md'', PStr (get_template_file ''README.md'' ''todo app'')),
                   (''style.css'', PStr (get_template_file ''style.css'' ''todo app'')),
                   (''script.js'', PStr (get_template_file ''script.js'' ''todo app'')),
                   (''LICENSE'', PStr (get_template_file ''LICENSE'' ''todo app''))])"
    by (simp add: generate_app_code_def generated_text_of_def parse_generated_code_def slice
        example_json_def required_files_def)
  from generate_app_code_total [OF ok,
      of "\<lparr>generator = Some (\<lambda>prompt. Inl (Exception ''CUDA out of memory''))\<rparr>"
         "''todo app''" "[''must load'']" None None]
  have second: "generate_app_code example_json
       \<lparr>generator = Some (\<lambda>prompt. Inl (Exception ''CUDA out of memory''))\<rparr>
       ''todo app'' [''must load''] None None
     = Inr (PDict (generate_template_code_dict ''todo app''))"
    by simp
  from first second show ?thesis by simp
qed

end
